theory Spec2Isabelle
  imports Complex_Main "HOL-Library.Word"
begin

section \<open>pgao: alerts, health status and metrics (package models)\<close>

text \<open>
  Conventions of the embedding.
  \<^item> A finite \<open>float64\<close> is the real number it denotes, and the snapshot fields and the
    thresholds are finite. Comparisons are those of the reals; a conversion from an
    integer, a quotient and a product are the exact result rounded to the nearest
    \<open>float64\<close>, ties to even (see the arithmetic of \<open>float64\<close> below). No operation of the
    code yields NaN from finite operands: it divides only by a converted positive integer
    or by 60.
  \<^item> Go's \<open>int\<close> and \<open>int64\<close> are modelled by \<open>int\<close>. The code only compares such values
    with constants, converts them to \<open>float64\<close> and counts list elements, so no integer
    computation leaves the 64-bit range.
  \<^item> \<open>time.Time\<close> is a number of type \<open>int\<close>; \<open>time.Now()\<close> reads a clock that is
    passed explicitly: the clock is the sequence of readings still to come.
  \<^item> \<open>AlertSeverity\<close> and \<open>AlertType\<close> are string types in Go and stay strings here.
  \<^item> \<open>fmt.Sprintf\<close> with a numeric verb is a parameter (record \<open>fmt\<close>); the verb \<open>%s\<close>
    is list concatenation.
  \<^item> Field names shared by several Go structs carry the struct as a suffix.
  \<^item> A pointer argument is the value it points to: no argument is \<open>nil\<close>. A function that
    mutates its receiver or an argument returns the new value.
  \<^item> A \<open>context.Context\<close> argument and the timeouts set on it have no counterpart: whether
    a call to the database succeeds is an answer of the library (record \<open>pgx\<close>).
\<close>

subsection \<open>Arithmetic of \<open>float64\<close>\<close>

text \<open>
  The binary64 format: a value is an integer multiple of a power of two, with a
  significand of 53 bits and the least exponent -1022 (below it the spacing stays
  \<open>2^-1074\<close>). \<open>to_float64\<close> is the rounding of an exact result that Go (IEEE 754) applies
  after every operation: to the nearest value of the format, a tie to the one with the even
  significand. A result of magnitude \<open>2^1024\<close> or more stands for an infinity of that sign:
  it compares with every finite \<open>float64\<close> as the infinity does, and the code never computes
  with it further.
\<close>

definition pow2 :: "int \<Rightarrow> real" where
  "pow2 k = (if k \<ge> 0 then 2 ^ nat k else 1 / 2 ^ nat (- k))"

definition round_half_even :: "real \<Rightarrow> int" where
  "round_half_even x =
     (let n = \<lfloor>x\<rfloor>; r = x - of_int n in
      if r < 1 / 2 then n
      else if r > 1 / 2 then n + 1
      else if even n then n else n + 1)"

definition float64_exponent :: "real \<Rightarrow> int" where
  "float64_exponent x = max \<lfloor>log 2 \<bar>x\<bar>\<rfloor> (- 1022)"

definition to_float64 :: "real \<Rightarrow> real" where
  "to_float64 x =
     (if x = 0 then 0
      else let ulp = pow2 (float64_exponent x - 52)
           in of_int (round_half_even (x / ulp)) * ulp)"

text \<open>The conversion \<open>float64(n)\<close> of an integer, and the operators \<open>/\<close> and \<open>*\<close>.\<close>

definition float64_of_int :: "int \<Rightarrow> real" where
  "float64_of_int n = to_float64 (real_of_int n)"

definition float64_div :: "real \<Rightarrow> real \<Rightarrow> real" where
  "float64_div x y = to_float64 (x / y)"

definition float64_mul :: "real \<Rightarrow> real \<Rightarrow> real" where
  "float64_mul x y = to_float64 (x * y)"

subsection \<open>Time and formatting\<close>

type_synonym time = int
type_synonym clock = "nat \<Rightarrow> time"

definition time_Now :: "clock \<Rightarrow> time \<times> clock" where
  "time_Now clk = (clk 0, \<lambda>k. clk (Suc k))"

record fmt =
  sprintf_f1 :: "real \<Rightarrow> string"
  sprintf_f2 :: "real \<Rightarrow> string"
  sprintf_d :: "int \<Rightarrow> string"

type_synonym AlertSeverity = string

abbreviation AlertSeverityCritical :: AlertSeverity where "AlertSeverityCritical \<equiv> ''critical''"
abbreviation AlertSeverityHigh :: AlertSeverity where "AlertSeverityHigh \<equiv> ''high''"
abbreviation AlertSeverityMedium :: AlertSeverity where "AlertSeverityMedium \<equiv> ''medium''"
abbreviation AlertSeverityLow :: AlertSeverity where "AlertSeverityLow \<equiv> ''low''"
abbreviation AlertSeverityInfo :: AlertSeverity where "AlertSeverityInfo \<equiv> ''info''"

type_synonym AlertType = string

abbreviation AlertTypePerformance :: AlertType where "AlertTypePerformance \<equiv> ''performance''"
abbreviation AlertTypeAvailability :: AlertType where "AlertTypeAvailability \<equiv> ''availability''"
abbreviation AlertTypeCapacity :: AlertType where "AlertTypeCapacity \<equiv> ''capacity''"
abbreviation AlertTypeSecurity :: AlertType where "AlertTypeSecurity \<equiv> ''security''"
abbreviation AlertTypeConfiguration :: AlertType where "AlertTypeConfiguration \<equiv> ''configuration''"
abbreviation AlertTypeReplication :: AlertType where "AlertTypeReplication \<equiv> ''replication''"
abbreviation AlertTypeConnection :: AlertType where "AlertTypeConnection \<equiv> ''connection''"
abbreviation AlertTypeQuery :: AlertType where "AlertTypeQuery \<equiv> ''query''"

text \<open>The values stored in an alert's \<open>Metadata\<close> (\<open>map[string]interface{}\<close>).\<close>

datatype meta_value = MString string | MInt int

record Alert =
  ID :: string
  Type_alert :: AlertType
  Severity :: AlertSeverity
  ClusterID_alert :: string
  Title :: string
  Description :: string
  Metric :: string
  Threshold :: real
  CurrentValue :: real
  Timestamp_alert :: time
  Status_alert :: string
  AcknowledgedAt :: "time option"
  AcknowledgedBy :: string
  ResolvedAt :: "time option"
  Metadata :: "string \<rightharpoonup> meta_value"
  Actions :: "string list"

text \<open>\<open>NewAlert\<close> (alert.go, 51-63): the fields not listed have Go's zero value.\<close>

definition NewAlert ::
  "AlertType \<Rightarrow> AlertSeverity \<Rightarrow> string \<Rightarrow> string \<Rightarrow> string \<Rightarrow> clock \<Rightarrow> Alert \<times> clock" where
  "NewAlert alertType severity clusterID title description clk =
     (let (now, clk') = time_Now clk in
      (\<lparr> ID = '''',
         Type_alert = alertType,
         Severity = severity,
         ClusterID_alert = clusterID,
         Title = title,
         Description = description,
         Metric = '''',
         Threshold = 0,
         CurrentValue = 0,
         Timestamp_alert = now,
         Status_alert = ''active'',
         AcknowledgedAt = None,
         AcknowledgedBy = '''',
         ResolvedAt = None,
         Metadata = Map.empty,
         Actions = [] \<rparr>, clk'))"

definition AddAction :: "Alert \<Rightarrow> string \<Rightarrow> Alert" where
  "AddAction a action = a\<lparr>Actions := Actions a @ [action]\<rparr>"

record HealthCheck =
  Name_check :: string
  Status_check :: string
  Message_check :: string
  LastChecked :: time
  Value_check :: real

record HealthStatus =
  ClusterID_health :: string
  Status_health :: string
  Score :: int
  ActiveAlerts :: int
  CriticalAlerts :: int
  LastCheck :: time
  Checks :: "HealthCheck list"

definition NewHealthStatus :: "string \<Rightarrow> clock \<Rightarrow> HealthStatus \<times> clock" where
  "NewHealthStatus clusterID clk =
     (let (now, clk') = time_Now clk in
      (\<lparr> ClusterID_health = clusterID,
         Status_health = ''unknown'',
         Score = 0,
         ActiveAlerts = 0,
         CriticalAlerts = 0,
         LastCheck = now,
         Checks = [] \<rparr>, clk'))"

text \<open>The loop of \<open>calculateScore\<close> (alert.go, 130-135).\<close>

fun passedChecks :: "HealthCheck list \<Rightarrow> int" where
  "passedChecks [] = 0"
| "passedChecks (check # rest) =
     (if Status_check check = ''ok'' \<or> Status_check check = ''healthy''
      then passedChecks rest + 1 else passedChecks rest)"

text \<open>
  \<open>calculateScore\<close> (alert.go, 123-149). Both operands of the division are
  non-negative, so Go's truncating \<open>/\<close> is \<open>div\<close>.
\<close>

definition calculateScore :: "HealthStatus \<Rightarrow> HealthStatus" where
  "calculateScore hs =
     (if length (Checks hs) = 0 then hs\<lparr>Score := 0, Status_health := ''unknown''\<rparr>
      else
        let score = (passedChecks (Checks hs) * 100) div int (length (Checks hs)) in
        hs\<lparr>Score := score,
           Status_health :=
             (if score \<ge> 90 then ''healthy''
              else if score \<ge> 70 then ''warning''
              else if score \<ge> 50 then ''degraded''
              else ''critical'')\<rparr>)"

definition AddCheck :: "HealthStatus \<Rightarrow> HealthCheck \<Rightarrow> HealthStatus" where
  "AddCheck hs check = calculateScore (hs\<lparr>Checks := Checks hs @ [check]\<rparr>)"

record Metrics =
  ClusterID_metrics :: string
  Timestamp_metrics :: time
  ConnectionsActive :: int
  ConnectionsTotal :: int
  TransactionsPerSec :: real
  CacheHitRatio :: real
  DiskIORead :: real
  DiskIOWrite :: real
  CPUUsage :: real
  MemoryUsage :: real
  LockWaits :: int
  DeadlockCount :: int
  ReplicationLag :: int
  TableBloat :: real
  IndexSize :: int
  TableSize :: int

definition NewMetrics :: "string \<Rightarrow> clock \<Rightarrow> Metrics \<times> clock" where
  "NewMetrics clusterID clk =
     (let (now, clk') = time_Now clk in
      (\<lparr> ClusterID_metrics = clusterID,
         Timestamp_metrics = now,
         ConnectionsActive = 0,
         ConnectionsTotal = 0,
         TransactionsPerSec = 0,
         CacheHitRatio = 0,
         DiskIORead = 0,
         DiskIOWrite = 0,
         CPUUsage = 0,
         MemoryUsage = 0,
         LockWaits = 0,
         DeadlockCount = 0,
         ReplicationLag = 0,
         TableBloat = 0,
         IndexSize = 0,
         TableSize = 0 \<rparr>, clk'))"

record QueryMetrics =
  QueryID :: string
  Query :: string
  ClusterID_query :: string
  Database_query :: string
  ExecutionTime :: real
  PlanningTime :: real
  RowsReturned :: int
  RowsAffected :: int
  SharedBlocksHit :: int
  SharedBlocksRead :: int
  TempBlocksRead :: int
  TempBlocksWritten :: int
  Timestamp_query :: time
  CallCount :: int
  MeanExecTime :: real
  StddevExecTime :: real

section \<open>The performance analyzer (package analyzer)\<close>

record PerformanceThresholds =
  MaxConnectionsPercent :: real
  MinCacheHitRatio :: real
  MaxCPUPercent :: real
  MaxMemoryPercent :: real
  MaxReplicationLagMs :: int
  MaxSlowQueryTimeMs :: real
  MaxTableBloatPercent :: real

definition DefaultThresholds :: PerformanceThresholds where
  "DefaultThresholds =
     \<lparr> MaxConnectionsPercent = 80,
       MinCacheHitRatio = 95,
       MaxCPUPercent = 80,
       MaxMemoryPercent = 85,
       MaxReplicationLagMs = 10000,
       MaxSlowQueryTimeMs = 1000,
       MaxTableBloatPercent = 20 \<rparr>"

text \<open>\<open>getSeverity\<close>, \<open>getSeverityBelow\<close>, \<open>getSeverityLag\<close> (performance_analyzer.go, 331-371).\<close>

definition getSeverity :: "real \<Rightarrow> real \<Rightarrow> real \<Rightarrow> real \<Rightarrow> AlertSeverity" where
  "getSeverity value warning high critical =
     (if value \<ge> critical then AlertSeverityCritical
      else if value \<ge> high then AlertSeverityHigh
      else if value \<ge> warning then AlertSeverityMedium
      else AlertSeverityLow)"

definition getSeverityBelow :: "real \<Rightarrow> real \<Rightarrow> real \<Rightarrow> real \<Rightarrow> AlertSeverity" where
  "getSeverityBelow value warning high critical =
     (if value \<le> critical then AlertSeverityCritical
      else if value \<le> high then AlertSeverityHigh
      else if value \<le> warning then AlertSeverityMedium
      else AlertSeverityLow)"

definition getSeverityLag :: "int \<Rightarrow> int \<Rightarrow> int \<Rightarrow> int \<Rightarrow> AlertSeverity" where
  "getSeverityLag value warning high critical =
     (if value \<ge> critical then AlertSeverityCritical
      else if value \<ge> high then AlertSeverityHigh
      else if value \<ge> warning then AlertSeverityMedium
      else AlertSeverityLow)"

text \<open>
  \<open>AnalyzeMetrics\<close> (performance_analyzer.go, 54-194) is a sequence of eight blocks, each
  of which may append one alert to \<open>alerts\<close>. Every block is a function on the pair of the
  alert list built so far and the clock.
\<close>

type_synonym analysis = "Alert list \<times> clock"

text \<open>Check connection usage (57-74).\<close>

definition check_connection_usage ::
  "PerformanceThresholds \<Rightarrow> fmt \<Rightarrow> Metrics \<Rightarrow> analysis \<Rightarrow> analysis" where
  "check_connection_usage th f metrics st =
     (case st of (alerts, clk) \<Rightarrow>
        if ConnectionsTotal metrics > 0 then
          let connPercent =
                float64_mul
                  (float64_div (float64_of_int (ConnectionsActive metrics))
                     (float64_of_int (ConnectionsTotal metrics)))
                  100
          in
            if connPercent > MaxConnectionsPercent th then
              let (alert, clk') =
                    NewAlert AlertTypeConnection
                      (getSeverity connPercent (MaxConnectionsPercent th) 90 95)
                      (ClusterID_metrics metrics)
                      ''High Connection Usage''
                      (''Active connections at '' @ sprintf_f1 f connPercent @ ''% of maximum capacity'')
                      clk;
                  alert = alert\<lparr>Metric := ''connections_active''\<rparr>;
                  alert = alert\<lparr>Threshold := MaxConnectionsPercent th\<rparr>;
                  alert = alert\<lparr>CurrentValue := connPercent\<rparr>;
                  alert = AddAction alert
                    ''Consider increasing max_connections or optimizing connection pooling''
              in (alerts @ [alert], clk')
            else (alerts, clk)
        else (alerts, clk))"

text \<open>Check cache hit ratio (76-91).\<close>

definition check_cache_hit_ratio ::
  "PerformanceThresholds \<Rightarrow> fmt \<Rightarrow> Metrics \<Rightarrow> analysis \<Rightarrow> analysis" where
  "check_cache_hit_ratio th f metrics st =
     (case st of (alerts, clk) \<Rightarrow>
        if CacheHitRatio metrics < MinCacheHitRatio th then
          let (alert, clk') =
                NewAlert AlertTypePerformance
                  (getSeverityBelow (CacheHitRatio metrics) (MinCacheHitRatio th) 90 85)
                  (ClusterID_metrics metrics)
                  ''Low Cache Hit Ratio''
                  (''Cache hit ratio at '' @ sprintf_f1 f (CacheHitRatio metrics)
                     @ ''%, below recommended '' @ sprintf_f1 f (MinCacheHitRatio th) @ ''%'')
                  clk;
              alert = alert\<lparr>Metric := ''cache_hit_ratio''\<rparr>;
              alert = alert\<lparr>Threshold := MinCacheHitRatio th\<rparr>;
              alert = alert\<lparr>CurrentValue := CacheHitRatio metrics\<rparr>;
              alert = AddAction alert ''Consider increasing shared_buffers'';
              alert = AddAction alert ''Review query patterns for optimization''
          in (alerts @ [alert], clk')
        else (alerts, clk))"

text \<open>Check CPU usage (93-108).\<close>

definition check_cpu_usage ::
  "PerformanceThresholds \<Rightarrow> fmt \<Rightarrow> Metrics \<Rightarrow> analysis \<Rightarrow> analysis" where
  "check_cpu_usage th f metrics st =
     (case st of (alerts, clk) \<Rightarrow>
        if CPUUsage metrics > MaxCPUPercent th then
          let (alert, clk') =
                NewAlert AlertTypePerformance
                  (getSeverity (CPUUsage metrics) (MaxCPUPercent th) 90 95)
                  (ClusterID_metrics metrics)
                  ''High CPU Usage''
                  (''CPU usage at '' @ sprintf_f1 f (CPUUsage metrics) @ ''%'')
                  clk;
              alert = alert\<lparr>Metric := ''cpu_usage''\<rparr>;
              alert = alert\<lparr>Threshold := MaxCPUPercent th\<rparr>;
              alert = alert\<lparr>CurrentValue := CPUUsage metrics\<rparr>;
              alert = AddAction alert ''Identify and optimize expensive queries'';
              alert = AddAction alert ''Consider scaling up the instance''
          in (alerts @ [alert], clk')
        else (alerts, clk))"

text \<open>Check memory usage (110-125).\<close>

definition check_memory_usage ::
  "PerformanceThresholds \<Rightarrow> fmt \<Rightarrow> Metrics \<Rightarrow> analysis \<Rightarrow> analysis" where
  "check_memory_usage th f metrics st =
     (case st of (alerts, clk) \<Rightarrow>
        if MemoryUsage metrics > MaxMemoryPercent th then
          let (alert, clk') =
                NewAlert AlertTypeCapacity
                  (getSeverity (MemoryUsage metrics) (MaxMemoryPercent th) 90 95)
                  (ClusterID_metrics metrics)
                  ''High Memory Usage''
                  (''Memory usage at '' @ sprintf_f1 f (MemoryUsage metrics) @ ''%'')
                  clk;
              alert = alert\<lparr>Metric := ''memory_usage''\<rparr>;
              alert = alert\<lparr>Threshold := MaxMemoryPercent th\<rparr>;
              alert = alert\<lparr>CurrentValue := MemoryUsage metrics\<rparr>;
              alert = AddAction alert ''Review and optimize memory-intensive queries'';
              alert = AddAction alert ''Consider increasing available memory''
          in (alerts @ [alert], clk')
        else (alerts, clk))"

text \<open>Check replication lag (127-142).\<close>

definition check_replication_lag ::
  "PerformanceThresholds \<Rightarrow> fmt \<Rightarrow> Metrics \<Rightarrow> analysis \<Rightarrow> analysis" where
  "check_replication_lag th f metrics st =
     (case st of (alerts, clk) \<Rightarrow>
        if ReplicationLag metrics > MaxReplicationLagMs th then
          let (alert, clk') =
                NewAlert AlertTypeReplication
                  (getSeverityLag (ReplicationLag metrics) (MaxReplicationLagMs th) 30000 60000)
                  (ClusterID_metrics metrics)
                  ''High Replication Lag''
                  (''Replication lag at '' @ sprintf_d f (ReplicationLag metrics) @ ''ms'')
                  clk;
              alert = alert\<lparr>Metric := ''replication_lag''\<rparr>;
              alert = alert\<lparr>Threshold := float64_of_int (MaxReplicationLagMs th)\<rparr>;
              alert = alert\<lparr>CurrentValue := float64_of_int (ReplicationLag metrics)\<rparr>;
              alert = AddAction alert ''Check network connectivity between primary and replica'';
              alert = AddAction alert ''Review write load on primary''
          in (alerts @ [alert], clk')
        else (alerts, clk))"

text \<open>Check for lock waits (144-158): the trigger is the constant 100 and \<open>Threshold\<close> is not set.\<close>

definition check_lock_waits ::
  "PerformanceThresholds \<Rightarrow> fmt \<Rightarrow> Metrics \<Rightarrow> analysis \<Rightarrow> analysis" where
  "check_lock_waits th f metrics st =
     (case st of (alerts, clk) \<Rightarrow>
        if LockWaits metrics > 100 then
          let (alert, clk') =
                NewAlert AlertTypePerformance
                  AlertSeverityMedium
                  (ClusterID_metrics metrics)
                  ''High Lock Waits''
                  (sprintf_d f (LockWaits metrics) @ '' queries waiting for locks'')
                  clk;
              alert = alert\<lparr>Metric := ''lock_waits''\<rparr>;
              alert = alert\<lparr>CurrentValue := float64_of_int (LockWaits metrics)\<rparr>;
              alert = AddAction alert ''Review long-running transactions'';
              alert = AddAction alert ''Optimize query access patterns''
          in (alerts @ [alert], clk')
        else (alerts, clk))"

text \<open>Check for deadlocks (160-174): \<open>Threshold\<close> is not set.\<close>

definition check_deadlocks ::
  "PerformanceThresholds \<Rightarrow> fmt \<Rightarrow> Metrics \<Rightarrow> analysis \<Rightarrow> analysis" where
  "check_deadlocks th f metrics st =
     (case st of (alerts, clk) \<Rightarrow>
        if DeadlockCount metrics > 0 then
          let (alert, clk') =
                NewAlert AlertTypePerformance
                  AlertSeverityHigh
                  (ClusterID_metrics metrics)
                  ''Deadlocks Detected''
                  (sprintf_d f (DeadlockCount metrics) @ '' deadlocks detected'')
                  clk;
              alert = alert\<lparr>Metric := ''deadlock_count''\<rparr>;
              alert = alert\<lparr>CurrentValue := float64_of_int (DeadlockCount metrics)\<rparr>;
              alert = AddAction alert ''Review transaction ordering'';
              alert = AddAction alert ''Consider implementing retry logic''
          in (alerts @ [alert], clk')
        else (alerts, clk))"

text \<open>Check table bloat (176-191).\<close>

definition check_table_bloat ::
  "PerformanceThresholds \<Rightarrow> fmt \<Rightarrow> Metrics \<Rightarrow> analysis \<Rightarrow> analysis" where
  "check_table_bloat th f metrics st =
     (case st of (alerts, clk) \<Rightarrow>
        if TableBloat metrics > MaxTableBloatPercent th then
          let (alert, clk') =
                NewAlert AlertTypeCapacity
                  (getSeverity (TableBloat metrics) (MaxTableBloatPercent th) 30 40)
                  (ClusterID_metrics metrics)
                  ''High Table Bloat''
                  (''Table bloat at '' @ sprintf_f1 f (TableBloat metrics) @ ''%'')
                  clk;
              alert = alert\<lparr>Metric := ''table_bloat''\<rparr>;
              alert = alert\<lparr>Threshold := MaxTableBloatPercent th\<rparr>;
              alert = alert\<lparr>CurrentValue := TableBloat metrics\<rparr>;
              alert = AddAction alert ''Run VACUUM ANALYZE'';
              alert = AddAction alert ''Consider VACUUM FULL for heavily bloated tables''
          in (alerts @ [alert], clk')
        else (alerts, clk))"

definition AnalyzeMetrics ::
  "PerformanceThresholds \<Rightarrow> fmt \<Rightarrow> Metrics \<Rightarrow> clock \<Rightarrow> Alert list \<times> clock" where
  "AnalyzeMetrics th f metrics clk =
     (check_table_bloat th f metrics
     (check_deadlocks th f metrics
     (check_lock_waits th f metrics
     (check_replication_lag th f metrics
     (check_memory_usage th f metrics
     (check_cpu_usage th f metrics
     (check_cache_hit_ratio th f metrics
     (check_connection_usage th f metrics ([], clk)))))))))"

text \<open>
  \<open>AnalyzeQueryPerformance\<close> (performance_analyzer.go, 196-250). The two blocks are written
  in place; the severity of a slow query is assigned three times in a row, as in the source.
\<close>

definition AnalyzeQueryPerformance ::
  "PerformanceThresholds \<Rightarrow> fmt \<Rightarrow> QueryMetrics \<Rightarrow> clock \<Rightarrow> Alert list \<times> clock" where
  "AnalyzeQueryPerformance th f qm clk =
     (let alerts = [];
          (alerts, clk) =
            (if ExecutionTime qm > MaxSlowQueryTimeMs th then
               let severity = AlertSeverityMedium;
                   severity = (if ExecutionTime qm > float64_mul (MaxSlowQueryTimeMs th) 5
                               then AlertSeverityHigh else severity);
                   severity = (if ExecutionTime qm > float64_mul (MaxSlowQueryTimeMs th) 10
                               then AlertSeverityCritical else severity);
                   (alert, clk') =
                     NewAlert AlertTypeQuery severity (ClusterID_query qm)
                       ''Slow Query Detected''
                       (''Query took '' @ sprintf_f2 f (ExecutionTime qm) @ ''ms to execute'')
                       clk;
                   alert = alert\<lparr>Metric := ''execution_time''\<rparr>;
                   alert = alert\<lparr>Threshold := MaxSlowQueryTimeMs th\<rparr>;
                   alert = alert\<lparr>CurrentValue := ExecutionTime qm\<rparr>;
                   alert = alert\<lparr>Metadata :=
                             [''query_id'' \<mapsto> MString (QueryID qm),
                              ''database'' \<mapsto> MString (Database_query qm)]\<rparr>;
                   alert = AddAction alert ''Analyze query with EXPLAIN ANALYZE'';
                   alert = AddAction alert ''Check for missing indexes'';
                   alert = AddAction alert ''Consider query optimization''
               in (alerts @ [alert], clk')
             else (alerts, clk));
          (alerts, clk) =
            (if TempBlocksRead qm > 10000 \<or> TempBlocksWritten qm > 10000 then
               let (alert, clk') =
                     NewAlert AlertTypePerformance AlertSeverityMedium (ClusterID_query qm)
                       ''High Temp Block Usage''
                       (''Query using excessive temp blocks (read: ''
                          @ sprintf_d f (TempBlocksRead qm) @ '', written: ''
                          @ sprintf_d f (TempBlocksWritten qm) @ '')'')
                       clk;
                   alert = alert\<lparr>Metadata :=
                             [''query_id'' \<mapsto> MString (QueryID qm),
                              ''temp_blocks_read'' \<mapsto> MInt (TempBlocksRead qm),
                              ''temp_blocks_written'' \<mapsto> MInt (TempBlocksWritten qm)]\<rparr>;
                   alert = AddAction alert ''Consider increasing work_mem'';
                   alert = AddAction alert ''Optimize sort and hash operations''
               in (alerts @ [alert], clk')
             else (alerts, clk))
      in (alerts, clk))"

text \<open>
  The loop of \<open>GenerateHealthStatus\<close> over the alerts (258-265): the state is the health
  status and the local counter \<open>criticalCount\<close>.
\<close>

fun count_alerts :: "Alert list \<Rightarrow> HealthStatus \<times> int \<Rightarrow> HealthStatus \<times> int" where
  "count_alerts [] st = st"
| "count_alerts (alert # rest) (health, criticalCount) =
     (if Status_alert alert = ''active'' then
        count_alerts rest
          (health\<lparr>ActiveAlerts := ActiveAlerts health + 1\<rparr>,
           if Severity alert = AlertSeverityCritical then criticalCount + 1 else criticalCount)
      else count_alerts rest (health, criticalCount))"

text \<open>
  \<open>GenerateHealthStatus\<close> (performance_analyzer.go, 253-329). A \<open>HealthCheck\<close> literal
  without \<open>Value\<close> has the zero value there.
\<close>

definition GenerateHealthStatus ::
  "PerformanceThresholds \<Rightarrow> fmt \<Rightarrow> string \<Rightarrow> Metrics \<Rightarrow> Alert list \<Rightarrow> clock
     \<Rightarrow> HealthStatus \<times> clock" where
  "GenerateHealthStatus th f clusterID metrics alerts clk =
     (let (health, clk) = NewHealthStatus clusterID clk;
          (health, criticalCount) = count_alerts alerts (health, 0);
          health = health\<lparr>CriticalAlerts := criticalCount\<rparr>;
          (now, clk) = time_Now clk;
          health = AddCheck health
            \<lparr> Name_check = ''Database Connectivity'',
              Status_check = ''ok'',
              Message_check = ''Database is reachable'',
              LastChecked = now,
              Value_check = 0 \<rparr>;
          (health, clk) =
            (if ConnectionsTotal metrics > 0 then
               let connPercent =
                     float64_mul
                       (float64_div (float64_of_int (ConnectionsActive metrics))
                          (float64_of_int (ConnectionsTotal metrics)))
                       100;
                   status = ''ok'';
                   message = sprintf_f1 f connPercent @ ''% connections in use'';
                   status = (if connPercent > MaxConnectionsPercent th then ''warning'' else status);
                   (now, clk') = time_Now clk
               in (AddCheck health
                     \<lparr> Name_check = ''Connection Pool'',
                       Status_check = status,
                       Message_check = message,
                       LastChecked = now,
                       Value_check = connPercent \<rparr>, clk')
             else (health, clk));
          cacheStatus = ''ok'';
          cacheStatus = (if CacheHitRatio metrics < MinCacheHitRatio th then ''warning'' else cacheStatus);
          (now, clk) = time_Now clk;
          health = AddCheck health
            \<lparr> Name_check = ''Cache Performance'',
              Status_check = cacheStatus,
              Message_check = sprintf_f1 f (CacheHitRatio metrics) @ ''% cache hit ratio'',
              LastChecked = now,
              Value_check = CacheHitRatio metrics \<rparr>;
          cpuStatus = ''ok'';
          cpuStatus = (if CPUUsage metrics > MaxCPUPercent th then ''warning'' else cpuStatus);
          (now, clk) = time_Now clk;
          health = AddCheck health
            \<lparr> Name_check = ''CPU Usage'',
              Status_check = cpuStatus,
              Message_check = sprintf_f1 f (CPUUsage metrics) @ ''% CPU usage'',
              LastChecked = now,
              Value_check = CPUUsage metrics \<rparr>;
          memStatus = ''ok'';
          memStatus = (if MemoryUsage metrics > MaxMemoryPercent th then ''warning'' else memStatus);
          (now, clk) = time_Now clk;
          health = AddCheck health
            \<lparr> Name_check = ''Memory Usage'',
              Status_check = memStatus,
              Message_check = sprintf_f1 f (MemoryUsage metrics) @ ''% memory usage'',
              LastChecked = now,
              Value_check = MemoryUsage metrics \<rparr>
      in (health, clk))"

section \<open>The connection registry (package db)\<close>

text \<open>
  The registry calls the pgx pooling library and the logger. The library is a record of
  answers (\<open>None\<close>: the call succeeds; an error is its message); what the calls change
  is kept in the record \<open>world\<close>: the clock, the next pool handle to be handed out, the
  handles on which \<open>Close\<close> was called, and the lines logged. The mutex of the registry has
  no counterpart: calls are taken one after the other.
\<close>

type_synonym lib_error = string

datatype level = Debug | Info | Warn

record world =
  now_clock :: clock
  next_handle :: nat
  closed_pools :: "nat set"
  logged :: "(level \<times> string) list"

definition Infof :: "string \<Rightarrow> world \<Rightarrow> world" where
  "Infof msg w = w\<lparr>logged := logged w @ [(Info, msg)]\<rparr>"

definition Warnf :: "string \<Rightarrow> world \<Rightarrow> world" where
  "Warnf msg w = w\<lparr>logged := logged w @ [(Warn, msg)]\<rparr>"

definition Debugf :: "string \<Rightarrow> world \<Rightarrow> world" where
  "Debugf msg w = w\<lparr>logged := logged w @ [(Debug, msg)]\<rparr>"

record ConnectionConfig =
  Host :: string
  Port :: int
  User :: string
  Password :: string
  Database_config :: string
  MaxConnections :: int
  MinConnections :: int
  ConnMaxLifetime :: int
  ConnMaxIdleTime :: int
  SSLMode :: string

text \<open>
  The part of \<open>pgxpool.Config\<close> that \<open>AddCluster\<close> determines: the connection string it was
  parsed from and the four fields assigned afterwards. Durations are nanoseconds.
\<close>

record PoolConfig =
  ConnString :: string
  MaxConns :: int
  MinConns :: int
  MaxConnLifetime :: int
  MaxConnIdleTime :: int

record Pool =
  handle :: nat
  pool_config :: PoolConfig

record pgx =
  ParseConfig :: "string \<Rightarrow> lib_error option"
  NewWithConfig :: "PoolConfig \<Rightarrow> lib_error option"
  Ping :: "Pool \<Rightarrow> lib_error option"
  QueryRow_connections :: "Pool \<Rightarrow> lib_error + (int \<times> int)"
  QueryRow_cache :: "Pool \<Rightarrow> lib_error + real"
  QueryRow_transactions :: "Pool \<Rightarrow> lib_error + int"
  QueryRow_lock_waits :: "Pool \<Rightarrow> lib_error + int"
  QueryRow_deadlocks :: "Pool \<Rightarrow> lib_error + int"
  QueryRow_replication :: "Pool \<Rightarrow> lib_error + int"
  QueryRow_bloat :: "Pool \<Rightarrow> lib_error + real"
  QueryRow_disk_io :: "Pool \<Rightarrow> lib_error + (int \<times> int)"

text \<open>
  The errors of the registry are built by \<open>fmt.Errorf\<close>; one constructor per format string:
  \<^item> \<open>Errorf_already_exists\<close>: "cluster %s already exists in pool";
  \<^item> \<open>Errorf_parse\<close>: "failed to parse connection string: %w";
  \<^item> \<open>Errorf_create\<close>: "failed to create connection pool: %w";
  \<^item> \<open>Errorf_ping\<close>: "failed to ping database: %w";
  \<^item> \<open>Errorf_no_pool\<close>: "no connection pool found for cluster %s";
  \<^item> \<open>Errorf_not_found\<close>: "cluster %s not found in pool".
\<close>

datatype error =
    Errorf_already_exists string
  | Errorf_parse lib_error
  | Errorf_create lib_error
  | Errorf_ping lib_error
  | Errorf_no_pool string
  | Errorf_not_found string

text \<open>
  The code has no error types. The kinds below are the names that the specification
  (section 7) gives to these errors: a duplicate id, an unknown id, a failure to create or
  to probe a pool, a malformed endpoint configuration.
\<close>

datatype error_kind = AlreadyExists | NotFound | ConnectionError | ValidationError

fun kind_of :: "error \<Rightarrow> error_kind" where
  "kind_of (Errorf_already_exists _) = AlreadyExists"
| "kind_of (Errorf_parse _) = ValidationError"
| "kind_of (Errorf_create _) = ConnectionError"
| "kind_of (Errorf_ping _) = ConnectionError"
| "kind_of (Errorf_no_pool _) = NotFound"
| "kind_of (Errorf_not_found _) = NotFound"

record ConnectionPool =
  pools :: "string \<rightharpoonup> Pool"

definition NewConnectionPool :: ConnectionPool where
  "NewConnectionPool = \<lparr> pools = Map.empty \<rparr>"

text \<open>The conversion \<open>int32(x)\<close> of a Go \<open>int\<close>: the low 32 bits, read as signed.\<close>

definition int32 :: "int \<Rightarrow> int" where
  "int32 x = sint (word_of_int x :: 32 word)"

text \<open>Build connection string (\<open>AddCluster\<close>, 53-62).\<close>

definition connString_of :: "fmt \<Rightarrow> ConnectionConfig \<Rightarrow> string" where
  "connString_of f config =
     ''postgres://'' @ User config @ '':'' @ Password config @ ''@'' @ Host config
       @ '':'' @ sprintf_d f (Port config) @ ''/'' @ Database_config config
       @ ''?sslmode='' @ SSLMode config"

text \<open>
  Configure pool (\<open>AddCluster\<close>, 70-93): the four assignments to the parsed configuration.
  \<open>time.Hour\<close> is 3600000000000 and \<open>time.Minute\<close> is 60000000000.
\<close>

definition configure_pool :: "string \<Rightarrow> ConnectionConfig \<Rightarrow> PoolConfig" where
  "configure_pool connString config =
     \<lparr> ConnString = connString,
       MaxConns = (if MaxConnections config > 0 then int32 (MaxConnections config) else 25),
       MinConns = (if MinConnections config > 0 then int32 (MinConnections config) else 5),
       MaxConnLifetime =
         (if ConnMaxLifetime config > 0 then ConnMaxLifetime config else 3600000000000),
       MaxConnIdleTime =
         (if ConnMaxIdleTime config > 0 then ConnMaxIdleTime config else 30 * 60000000000) \<rparr>"

text \<open>
  \<open>AddCluster\<close> (registry, 44-114). The result is the returned error (\<open>None\<close> for \<open>nil\<close>)
  with the registry and the world after the call. \<open>pool.Close()\<close> puts the handle of the
  pool among the closed ones.
\<close>

definition AddCluster ::
  "pgx \<Rightarrow> fmt \<Rightarrow> string \<Rightarrow> ConnectionConfig \<Rightarrow> ConnectionPool \<times> world
     \<Rightarrow> error option \<times> ConnectionPool \<times> world" where
  "AddCluster lib f clusterID config st =
     (case st of (cp, w) \<Rightarrow>
        if pools cp clusterID \<noteq> None then (Some (Errorf_already_exists clusterID), cp, w)
        else
          let connString = connString_of f config in
            (case ParseConfig lib connString of
               Some err \<Rightarrow> (Some (Errorf_parse err), cp, w)
             | None \<Rightarrow>
                 let poolConfig = configure_pool connString config in
                   (case NewWithConfig lib poolConfig of
                      Some err \<Rightarrow> (Some (Errorf_create err), cp, w)
                    | None \<Rightarrow>
                        let pool = \<lparr> handle = next_handle w, pool_config = poolConfig \<rparr>;
                            w = w\<lparr>next_handle := Suc (next_handle w)\<rparr>
                        in
                          (case Ping lib pool of
                             Some err \<Rightarrow>
                               (Some (Errorf_ping err), cp,
                                w\<lparr>closed_pools := insert (handle pool) (closed_pools w)\<rparr>)
                           | None \<Rightarrow>
                               (None, cp\<lparr>pools := (pools cp)(clusterID \<mapsto> pool)\<rparr>,
                                Infof (''Successfully connected to cluster '' @ clusterID) w)))))"

definition GetPool :: "ConnectionPool \<Rightarrow> string \<Rightarrow> error + Pool" where
  "GetPool cp clusterID =
     (case pools cp clusterID of
        None \<Rightarrow> Inl (Errorf_no_pool clusterID)
      | Some pool \<Rightarrow> Inr pool)"

text \<open>
  \<open>GetAllClusters\<close> (143-153) appends every key of the map to a slice, in the order of Go's
  map iteration, which is not fixed; the model returns the elements of that slice.
\<close>

definition GetAllClusters :: "ConnectionPool \<Rightarrow> string set" where
  "GetAllClusters cp = dom (pools cp)"

definition RemoveCluster ::
  "string \<Rightarrow> ConnectionPool \<times> world \<Rightarrow> error option \<times> ConnectionPool \<times> world" where
  "RemoveCluster clusterID st =
     (case st of (cp, w) \<Rightarrow>
        (case pools cp clusterID of
           None \<Rightarrow> (Some (Errorf_not_found clusterID), cp, w)
         | Some pool \<Rightarrow>
             (None, cp\<lparr>pools := fun_upd (pools cp) clusterID None\<rparr>,
              Infof (''Removed cluster '' @ clusterID @ '' from pool'')
                (w\<lparr>closed_pools := insert (handle pool) (closed_pools w)\<rparr>))))"

section \<open>The metrics collector (package collector)\<close>

text \<open>
  Each sub-collection runs one query (the lock metrics two), scans the row and stores the
  values in the snapshot; it returns the error of the query, if any, and the snapshot.
\<close>

definition collectConnectionMetrics :: "pgx \<Rightarrow> Pool \<Rightarrow> Metrics \<Rightarrow> lib_error option \<times> Metrics" where
  "collectConnectionMetrics lib pool metrics =
     (case QueryRow_connections lib pool of
        Inl err \<Rightarrow> (Some err, metrics)
      | Inr (active, maxConn) \<Rightarrow>
          (None, metrics\<lparr>ConnectionsActive := active, ConnectionsTotal := maxConn\<rparr>))"

definition collectCacheMetrics :: "pgx \<Rightarrow> Pool \<Rightarrow> Metrics \<Rightarrow> lib_error option \<times> Metrics" where
  "collectCacheMetrics lib pool metrics =
     (case QueryRow_cache lib pool of
        Inl err \<Rightarrow> (Some err, metrics)
      | Inr cacheHitRatio \<Rightarrow> (None, metrics\<lparr>CacheHitRatio := cacheHitRatio\<rparr>))"

definition collectTransactionMetrics :: "pgx \<Rightarrow> Pool \<Rightarrow> Metrics \<Rightarrow> lib_error option \<times> Metrics" where
  "collectTransactionMetrics lib pool metrics =
     (case QueryRow_transactions lib pool of
        Inl err \<Rightarrow> (Some err, metrics)
      | Inr totalTxn \<Rightarrow> (None, metrics\<lparr>TransactionsPerSec :=
                               float64_div (float64_of_int totalTxn) 60\<rparr>))"

definition collectLockMetrics :: "pgx \<Rightarrow> Pool \<Rightarrow> Metrics \<Rightarrow> lib_error option \<times> Metrics" where
  "collectLockMetrics lib pool metrics =
     (case QueryRow_lock_waits lib pool of
        Inl err \<Rightarrow> (Some err, metrics)
      | Inr lockWaits \<Rightarrow>
          let metrics = metrics\<lparr>LockWaits := lockWaits\<rparr> in
          (case QueryRow_deadlocks lib pool of
             Inr deadlocks \<Rightarrow> (None, metrics\<lparr>DeadlockCount := deadlocks\<rparr>)
           | Inl err \<Rightarrow> (None, metrics)))"

definition collectReplicationMetrics :: "pgx \<Rightarrow> Pool \<Rightarrow> Metrics \<Rightarrow> lib_error option \<times> Metrics" where
  "collectReplicationMetrics lib pool metrics =
     (case QueryRow_replication lib pool of
        Inl err \<Rightarrow> (Some err, metrics)
      | Inr lagMs \<Rightarrow> (None, metrics\<lparr>ReplicationLag := lagMs\<rparr>))"

definition collectBloatMetrics :: "pgx \<Rightarrow> Pool \<Rightarrow> Metrics \<Rightarrow> lib_error option \<times> Metrics" where
  "collectBloatMetrics lib pool metrics =
     (case QueryRow_bloat lib pool of
        Inl err \<Rightarrow> (Some err, metrics)
      | Inr bloatPct \<Rightarrow> (None, metrics\<lparr>TableBloat := bloatPct\<rparr>))"

definition collectDiskIOMetrics :: "pgx \<Rightarrow> Pool \<Rightarrow> Metrics \<Rightarrow> lib_error option \<times> Metrics" where
  "collectDiskIOMetrics lib pool metrics =
     (case QueryRow_disk_io lib pool of
        Inl err \<Rightarrow> (Some err, metrics)
      | Inr (blocksRead, blocksWritten) \<Rightarrow>
          (None, metrics\<lparr>DiskIORead := float64_mul (float64_of_int blocksRead) 8,
                          DiskIOWrite := float64_mul (float64_of_int blocksWritten) 8\<rparr>))"

text \<open>The statement \<open>if err != nil { mc.log.Warnf(msg, err) }\<close> after each sub-collection.\<close>

definition warn_if_failed :: "string \<Rightarrow> lib_error option \<Rightarrow> world \<Rightarrow> world" where
  "warn_if_failed msg err w = (case err of None \<Rightarrow> w | Some e \<Rightarrow> Warnf (msg @ e) w)"

text \<open>\<open>CollectClusterMetrics\<close> (collector, 60-105).\<close>

definition CollectClusterMetrics ::
  "pgx \<Rightarrow> ConnectionPool \<Rightarrow> string \<Rightarrow> world \<Rightarrow> (error + Metrics) \<times> world" where
  "CollectClusterMetrics lib cp clusterID w =
     (let (metrics, clk) = NewMetrics clusterID (now_clock w);
          w = w\<lparr>now_clock := clk\<rparr>
      in
        case GetPool cp clusterID of
          Inl err \<Rightarrow> (Inl err, w)
        | Inr pool \<Rightarrow>
            let (err, metrics) = collectConnectionMetrics lib pool metrics;
                w = warn_if_failed ''Failed to collect connection metrics: '' err w;
                (err, metrics) = collectCacheMetrics lib pool metrics;
                w = warn_if_failed ''Failed to collect cache metrics: '' err w;
                (err, metrics) = collectTransactionMetrics lib pool metrics;
                w = warn_if_failed ''Failed to collect transaction metrics: '' err w;
                (err, metrics) = collectLockMetrics lib pool metrics;
                w = warn_if_failed ''Failed to collect lock metrics: '' err w;
                (err, metrics) = collectReplicationMetrics lib pool metrics;
                w = warn_if_failed ''Failed to collect replication metrics: '' err w;
                (err, metrics) = collectBloatMetrics lib pool metrics;
                w = warn_if_failed ''Failed to collect bloat metrics: '' err w;
                (err, metrics) = collectDiskIOMetrics lib pool metrics;
                w = warn_if_failed ''Failed to collect disk I/O metrics: '' err w;
                w = Debugf (''Collected metrics for cluster '' @ clusterID) w
            in (Inr metrics, w))"

section \<open>The alerts of \<open>AnalyzeMetrics\<close> as values\<close>

text \<open>
  The definitions of this section are not functions of the source. Each one is the alert
  that a block of \<open>AnalyzeMetrics\<close> has built at the moment it appends it, as a function of
  the clock reading; the lemmas \<open>check_*_fst\<close> below prove that the blocks append exactly
  these records. They are used to state what \<open>AnalyzeMetrics\<close> returns.
\<close>

definition connPercent_of :: "Metrics \<Rightarrow> real" where
  "connPercent_of metrics =
     float64_mul
       (float64_div (float64_of_int (ConnectionsActive metrics))
          (float64_of_int (ConnectionsTotal metrics)))
       100"

definition connection_alert :: "PerformanceThresholds \<Rightarrow> fmt \<Rightarrow> Metrics \<Rightarrow> time \<Rightarrow> Alert" where
  "connection_alert th f metrics now =
     \<lparr> ID = '''',
       Type_alert = AlertTypeConnection,
       Severity = getSeverity (connPercent_of metrics) (MaxConnectionsPercent th) 90 95,
       ClusterID_alert = ClusterID_metrics metrics,
       Title = ''High Connection Usage'',
       Description = ''Active connections at '' @ sprintf_f1 f (connPercent_of metrics) @ ''% of maximum capacity'',
       Metric = ''connections_active'',
       Threshold = MaxConnectionsPercent th,
       CurrentValue = connPercent_of metrics,
       Timestamp_alert = now,
       Status_alert = ''active'',
       AcknowledgedAt = None,
       AcknowledgedBy = '''',
       ResolvedAt = None,
       Metadata = Map.empty,
       Actions =
           [''Consider increasing max_connections or optimizing connection pooling''] \<rparr>"

definition cache_alert :: "PerformanceThresholds \<Rightarrow> fmt \<Rightarrow> Metrics \<Rightarrow> time \<Rightarrow> Alert" where
  "cache_alert th f metrics now =
     \<lparr> ID = '''',
       Type_alert = AlertTypePerformance,
       Severity = getSeverityBelow (CacheHitRatio metrics) (MinCacheHitRatio th) 90 85,
       ClusterID_alert = ClusterID_metrics metrics,
       Title = ''Low Cache Hit Ratio'',
       Description = ''Cache hit ratio at '' @ sprintf_f1 f (CacheHitRatio metrics)
           @ ''%, below recommended '' @ sprintf_f1 f (MinCacheHitRatio th) @ ''%'',
       Metric = ''cache_hit_ratio'',
       Threshold = MinCacheHitRatio th,
       CurrentValue = CacheHitRatio metrics,
       Timestamp_alert = now,
       Status_alert = ''active'',
       AcknowledgedAt = None,
       AcknowledgedBy = '''',
       ResolvedAt = None,
       Metadata = Map.empty,
       Actions =
           [''Consider increasing shared_buffers'',
            ''Review query patterns for optimization''] \<rparr>"

definition cpu_alert :: "PerformanceThresholds \<Rightarrow> fmt \<Rightarrow> Metrics \<Rightarrow> time \<Rightarrow> Alert" where
  "cpu_alert th f metrics now =
     \<lparr> ID = '''',
       Type_alert = AlertTypePerformance,
       Severity = getSeverity (CPUUsage metrics) (MaxCPUPercent th) 90 95,
       ClusterID_alert = ClusterID_metrics metrics,
       Title = ''High CPU Usage'',
       Description = ''CPU usage at '' @ sprintf_f1 f (CPUUsage metrics) @ ''%'',
       Metric = ''cpu_usage'',
       Threshold = MaxCPUPercent th,
       CurrentValue = CPUUsage metrics,
       Timestamp_alert = now,
       Status_alert = ''active'',
       AcknowledgedAt = None,
       AcknowledgedBy = '''',
       ResolvedAt = None,
       Metadata = Map.empty,
       Actions =
           [''Identify and optimize expensive queries'',
            ''Consider scaling up the instance''] \<rparr>"

definition memory_alert :: "PerformanceThresholds \<Rightarrow> fmt \<Rightarrow> Metrics \<Rightarrow> time \<Rightarrow> Alert" where
  "memory_alert th f metrics now =
     \<lparr> ID = '''',
       Type_alert = AlertTypeCapacity,
       Severity = getSeverity (MemoryUsage metrics) (MaxMemoryPercent th) 90 95,
       ClusterID_alert = ClusterID_metrics metrics,
       Title = ''High Memory Usage'',
       Description = ''Memory usage at '' @ sprintf_f1 f (MemoryUsage metrics) @ ''%'',
       Metric = ''memory_usage'',
       Threshold = MaxMemoryPercent th,
       CurrentValue = MemoryUsage metrics,
       Timestamp_alert = now,
       Status_alert = ''active'',
       AcknowledgedAt = None,
       AcknowledgedBy = '''',
       ResolvedAt = None,
       Metadata = Map.empty,
       Actions =
           [''Review and optimize memory-intensive queries'',
            ''Consider increasing available memory''] \<rparr>"

definition replication_alert :: "PerformanceThresholds \<Rightarrow> fmt \<Rightarrow> Metrics \<Rightarrow> time \<Rightarrow> Alert" where
  "replication_alert th f metrics now =
     \<lparr> ID = '''',
       Type_alert = AlertTypeReplication,
       Severity = getSeverityLag (ReplicationLag metrics) (MaxReplicationLagMs th) 30000 60000,
       ClusterID_alert = ClusterID_metrics metrics,
       Title = ''High Replication Lag'',
       Description = ''Replication lag at '' @ sprintf_d f (ReplicationLag metrics) @ ''ms'',
       Metric = ''replication_lag'',
       Threshold = float64_of_int (MaxReplicationLagMs th),
       CurrentValue = float64_of_int (ReplicationLag metrics),
       Timestamp_alert = now,
       Status_alert = ''active'',
       AcknowledgedAt = None,
       AcknowledgedBy = '''',
       ResolvedAt = None,
       Metadata = Map.empty,
       Actions =
           [''Check network connectivity between primary and replica'',
            ''Review write load on primary''] \<rparr>"

definition lock_alert :: "PerformanceThresholds \<Rightarrow> fmt \<Rightarrow> Metrics \<Rightarrow> time \<Rightarrow> Alert" where
  "lock_alert th f metrics now =
     \<lparr> ID = '''',
       Type_alert = AlertTypePerformance,
       Severity = AlertSeverityMedium,
       ClusterID_alert = ClusterID_metrics metrics,
       Title = ''High Lock Waits'',
       Description = sprintf_d f (LockWaits metrics) @ '' queries waiting for locks'',
       Metric = ''lock_waits'',
       Threshold = 0,
       CurrentValue = float64_of_int (LockWaits metrics),
       Timestamp_alert = now,
       Status_alert = ''active'',
       AcknowledgedAt = None,
       AcknowledgedBy = '''',
       ResolvedAt = None,
       Metadata = Map.empty,
       Actions =
           [''Review long-running transactions'',
            ''Optimize query access patterns''] \<rparr>"

definition deadlock_alert :: "PerformanceThresholds \<Rightarrow> fmt \<Rightarrow> Metrics \<Rightarrow> time \<Rightarrow> Alert" where
  "deadlock_alert th f metrics now =
     \<lparr> ID = '''',
       Type_alert = AlertTypePerformance,
       Severity = AlertSeverityHigh,
       ClusterID_alert = ClusterID_metrics metrics,
       Title = ''Deadlocks Detected'',
       Description = sprintf_d f (DeadlockCount metrics) @ '' deadlocks detected'',
       Metric = ''deadlock_count'',
       Threshold = 0,
       CurrentValue = float64_of_int (DeadlockCount metrics),
       Timestamp_alert = now,
       Status_alert = ''active'',
       AcknowledgedAt = None,
       AcknowledgedBy = '''',
       ResolvedAt = None,
       Metadata = Map.empty,
       Actions =
           [''Review transaction ordering'',
            ''Consider implementing retry logic''] \<rparr>"

definition bloat_alert :: "PerformanceThresholds \<Rightarrow> fmt \<Rightarrow> Metrics \<Rightarrow> time \<Rightarrow> Alert" where
  "bloat_alert th f metrics now =
     \<lparr> ID = '''',
       Type_alert = AlertTypeCapacity,
       Severity = getSeverity (TableBloat metrics) (MaxTableBloatPercent th) 30 40,
       ClusterID_alert = ClusterID_metrics metrics,
       Title = ''High Table Bloat'',
       Description = ''Table bloat at '' @ sprintf_f1 f (TableBloat metrics) @ ''%'',
       Metric = ''table_bloat'',
       Threshold = MaxTableBloatPercent th,
       CurrentValue = TableBloat metrics,
       Timestamp_alert = now,
       Status_alert = ''active'',
       AcknowledgedAt = None,
       AcknowledgedBy = '''',
       ResolvedAt = None,
       Metadata = Map.empty,
       Actions =
           [''Run VACUUM ANALYZE'',
            ''Consider VACUUM FULL for heavily bloated tables''] \<rparr>"

section \<open>The score in the words of the specification\<close>

text \<open>
  The specification describes the score as 100 times the count of checks not in warning,
  divided by the number of checks and rounded down. This definition follows those words;
  it is compared with \<open>calculateScore\<close> below.
\<close>

definition score_as_specified :: "HealthCheck list \<Rightarrow> int" where
  "score_as_specified checks =
     (if checks = [] then 0
      else (100 * int (length (filter (\<lambda>check. Status_check check \<noteq> ''warning'') checks)))
             div int (length checks))"

section \<open>Concrete inputs\<close>

text \<open>
  The inputs at which the theorems are instantiated: a formatter that prints every number as
  a question mark, the clock whose k-th reading is k, a library in which every call
  succeeds and every query answers with fixed numbers, one in which only the probe fails and
  one in which only the cache query fails.
\<close>

definition example_fmt :: fmt where
  "example_fmt = \<lparr> sprintf_f1 = (\<lambda>x. ''?''), sprintf_f2 = (\<lambda>x. ''?''), sprintf_d = (\<lambda>n. ''?'') \<rparr>"

definition example_clock :: clock where
  "example_clock = int"

definition example_world :: world where
  "example_world =
     \<lparr> now_clock = example_clock, next_handle = 0, closed_pools = {}, logged = [] \<rparr>"

definition example_config :: ConnectionConfig where
  "example_config =
     \<lparr> Host = ''db1'', Port = 5432, User = ''pgao'', Password = ''secret'',
       Database_config = ''postgres'', MaxConnections = 0, MinConnections = 0,
       ConnMaxLifetime = 0, ConnMaxIdleTime = 0, SSLMode = ''disable'' \<rparr>"

definition example_pgx :: pgx where
  "example_pgx =
     \<lparr> ParseConfig = (\<lambda>s. None),
       NewWithConfig = (\<lambda>c. None),
       Ping = (\<lambda>p. None),
       QueryRow_connections = (\<lambda>p. Inr (90, 100)),
       QueryRow_cache = (\<lambda>p. Inr 99),
       QueryRow_transactions = (\<lambda>p. Inr 100),
       QueryRow_lock_waits = (\<lambda>p. Inr 2),
       QueryRow_deadlocks = (\<lambda>p. Inr 1),
       QueryRow_replication = (\<lambda>p. Inr 0),
       QueryRow_bloat = (\<lambda>p. Inr 5),
       QueryRow_disk_io = (\<lambda>p. Inr (10, 20)) \<rparr>"

definition unreachable_pgx :: pgx where
  "unreachable_pgx = example_pgx\<lparr>Ping := (\<lambda>p. Some ''connection refused'')\<rparr>"

definition cache_failing_pgx :: pgx where
  "cache_failing_pgx = example_pgx\<lparr>QueryRow_cache := (\<lambda>p. Inl ''query failed'')\<rparr>"

definition example_pool :: Pool where
  "example_pool =
     \<lparr> handle = 7, pool_config = configure_pool (connString_of example_fmt example_config) example_config \<rparr>"

definition example_registry :: ConnectionPool where
  "example_registry = \<lparr> pools = [''c1'' \<mapsto> example_pool] \<rparr>"

text \<open>The snapshot that \<open>NewMetrics\<close> returns for cluster c1: every metric is zero.\<close>

definition example_metrics :: Metrics where
  "example_metrics = fst (NewMetrics ''c1'' example_clock)"

definition example_query :: QueryMetrics where
  "example_query =
     \<lparr> QueryID = ''q1'', Query = ''select 1'', ClusterID_query = ''c1'',
       Database_query = ''postgres'', ExecutionTime = 0, PlanningTime = 0, RowsReturned = 0,
       RowsAffected = 0, SharedBlocksHit = 0, SharedBlocksRead = 0, TempBlocksRead = 0,
       TempBlocksWritten = 0, Timestamp_query = 0, CallCount = 0, MeanExecTime = 0,
       StddevExecTime = 0 \<rparr>"

definition example_check :: "string \<Rightarrow> HealthCheck" where
  "example_check status =
     \<lparr> Name_check = ''check'', Status_check = status, Message_check = '''',
       LastChecked = 0, Value_check = 0 \<rparr>"

section \<open>Rounding to \<open>float64\<close>\<close>

lemma pow2_powr: "pow2 k = 2 powr (real_of_int k)"
proof (cases "k \<ge> 0")
  case True
  then show ?thesis
    by (simp add: pow2_def powr_realpow [symmetric])
next
  case False
  then have "real (nat (- k)) = - real_of_int k"
    by simp
  then have "(2::real) ^ nat (- k) = 2 powr (- real_of_int k)"
    by (metis powr_realpow zero_less_numeral)
  then show ?thesis
    using False by (simp add: pow2_def powr_minus_divide)
qed

lemma pow2_pos: "0 < pow2 k"
  by (simp add: pow2_def)

lemma float64_exponent_eq:
  assumes "pow2 e \<le> \<bar>x\<bar>" and "\<bar>x\<bar> < pow2 (e + 1)" and "- 1022 \<le> e"
  shows "float64_exponent x = e"
proof -
  have pos: "0 < \<bar>x\<bar>"
    using assms(1) pow2_pos [of e] by linarith
  have "\<lfloor>log 2 \<bar>x\<bar>\<rfloor> = e"
    using assms(1,2) pos by (simp add: floor_log_eq_powr_iff pow2_powr)
  then show ?thesis
    using assms(3) by (simp add: float64_exponent_def)
qed

text \<open>Rounding a number whose binary exponent is known.\<close>

lemma to_float64_at:
  assumes "pow2 e \<le> \<bar>x\<bar>" and "\<bar>x\<bar> < pow2 (e + 1)" and "- 1022 \<le> e"
  shows "to_float64 x = of_int (round_half_even (x / pow2 (e - 52))) * pow2 (e - 52)"
proof -
  have "x \<noteq> 0"
    using assms(1) pow2_pos [of e] by auto
  then show ?thesis
    by (simp add: to_float64_def float64_exponent_eq [OF assms] Let_def)
qed

lemmas float64_defs = float64_of_int_def float64_div_def float64_mul_def

text \<open>
  The values used below. 90 of 100 connections are 90 percent, although the quotient is
  rounded; 29 of 30 and 100 transactions in 60 seconds are not the exact quotients; 7 of
  100 connections are more than 7 percent; the integer \<open>2^53 + 1\<close> is converted to \<open>2^53\<close>.
\<close>

lemma float64_of_small_int:
  "float64_of_int 10 = 10" "float64_of_int 20 = 20" "float64_of_int 29 = 29"
  "float64_of_int 30 = 30" "float64_of_int 90 = 90" "float64_of_int 100 = 100"
  by (simp_all add: float64_defs to_float64_at [of 3] to_float64_at [of 4] to_float64_at [of 6]
        pow2_def round_half_even_def)

lemma float64_90_of_100:
  "float64_div 90 100 = 8106479329266893 / 9007199254740992"
  "float64_mul (8106479329266893 / 9007199254740992) 100 = 90"
  by (simp_all add: float64_defs to_float64_at [of "- 1"] to_float64_at [of 6]
        pow2_def round_half_even_def)

lemma float64_100_of_100:
  "float64_div 100 100 = 1"
  "float64_mul 1 100 = 100"
  by (simp_all add: float64_defs to_float64_at [of 0] to_float64_at [of 6]
        pow2_def round_half_even_def)

lemma float64_29_of_30:
  "float64_div 29 30 = 8706959279582959 / 9007199254740992"
  "float64_mul (8706959279582959 / 9007199254740992) 100 = 6802311937174187 / 70368744177664"
  by (simp_all add: float64_defs to_float64_at [of "- 1"] to_float64_at [of 6]
        pow2_def round_half_even_def)

lemma float64_100_per_60:
  "float64_div 100 60 = 7505999378950827 / 4503599627370496"
  by (simp add: float64_defs to_float64_at [of 0] pow2_def round_half_even_def)

lemma float64_7_of_100:
  "float64_of_int 7 = 7"
  "float64_div 7 100 = 5044031582654956 / 72057594037927936"
  "float64_mul (5044031582654956 / 72057594037927936) 100 = 7881299347898369 / 1125899906842624"
  "(7::real) < 7881299347898369 / 1125899906842624"
  by (simp_all add: float64_defs to_float64_at [of 2] to_float64_at [of "- 4"]
        pow2_def round_half_even_def)

lemma float64_of_large_int:
  "float64_of_int 9007199254740993 = 9007199254740992"
  "float64_mul 9007199254740992 8 = 72057594037927936"
  by (simp_all add: float64_defs to_float64_at [of 53] to_float64_at [of 56]
        pow2_def round_half_even_def)

lemma float64_blocks:
  "float64_mul 10 8 = 80" "float64_mul 20 8 = 160"
  by (simp_all add: float64_defs to_float64_at [of 6] to_float64_at [of 7]
        pow2_def round_half_even_def)

section \<open>What \<open>AnalyzeMetrics\<close> returns\<close>

text \<open>
  Each block appends at most one alert, the record of the previous section, stamped with
  the next clock reading.
\<close>

lemma check_connection_usage_fst:
  "fst (check_connection_usage th f m st) =
     fst st @ (if ConnectionsTotal m > 0 \<and> connPercent_of m > MaxConnectionsPercent th
               then [connection_alert th f m (snd st 0)] else [])"
  by (simp add: check_connection_usage_def connection_alert_def connPercent_of_def NewAlert_def
        time_Now_def AddAction_def Let_def split: prod.splits)

lemma check_cache_hit_ratio_fst:
  "fst (check_cache_hit_ratio th f m st) =
     fst st @ (if CacheHitRatio m < MinCacheHitRatio th
               then [cache_alert th f m (snd st 0)] else [])"
  by (simp add: check_cache_hit_ratio_def cache_alert_def NewAlert_def
        time_Now_def AddAction_def Let_def split: prod.splits)

lemma check_cpu_usage_fst:
  "fst (check_cpu_usage th f m st) =
     fst st @ (if CPUUsage m > MaxCPUPercent th
               then [cpu_alert th f m (snd st 0)] else [])"
  by (simp add: check_cpu_usage_def cpu_alert_def NewAlert_def
        time_Now_def AddAction_def Let_def split: prod.splits)

lemma check_memory_usage_fst:
  "fst (check_memory_usage th f m st) =
     fst st @ (if MemoryUsage m > MaxMemoryPercent th
               then [memory_alert th f m (snd st 0)] else [])"
  by (simp add: check_memory_usage_def memory_alert_def NewAlert_def
        time_Now_def AddAction_def Let_def split: prod.splits)

lemma check_replication_lag_fst:
  "fst (check_replication_lag th f m st) =
     fst st @ (if ReplicationLag m > MaxReplicationLagMs th
               then [replication_alert th f m (snd st 0)] else [])"
  by (simp add: check_replication_lag_def replication_alert_def NewAlert_def
        time_Now_def AddAction_def Let_def split: prod.splits)

lemma check_lock_waits_fst:
  "fst (check_lock_waits th f m st) =
     fst st @ (if LockWaits m > 100
               then [lock_alert th f m (snd st 0)] else [])"
  by (simp add: check_lock_waits_def lock_alert_def NewAlert_def
        time_Now_def AddAction_def Let_def split: prod.splits)

lemma check_deadlocks_fst:
  "fst (check_deadlocks th f m st) =
     fst st @ (if DeadlockCount m > 0
               then [deadlock_alert th f m (snd st 0)] else [])"
  by (simp add: check_deadlocks_def deadlock_alert_def NewAlert_def
        time_Now_def AddAction_def Let_def split: prod.splits)

lemma check_table_bloat_fst:
  "fst (check_table_bloat th f m st) =
     fst st @ (if TableBloat m > MaxTableBloatPercent th
               then [bloat_alert th f m (snd st 0)] else [])"
  by (simp add: check_table_bloat_def bloat_alert_def NewAlert_def
        time_Now_def AddAction_def Let_def split: prod.splits)

lemmas check_fst = check_connection_usage_fst check_cache_hit_ratio_fst check_cpu_usage_fst
  check_memory_usage_fst check_replication_lag_fst check_lock_waits_fst check_deadlocks_fst
  check_table_bloat_fst

text \<open>
  The alerts come in the order of the blocks; the clock readings are the only part of the
  result that depends on the clock.
\<close>

lemma AnalyzeMetrics_alerts:
  "\<exists>t1 t2 t3 t4 t5 t6 t7 t8.
     fst (AnalyzeMetrics th f m clk) =
       (if ConnectionsTotal m > 0 \<and> connPercent_of m > MaxConnectionsPercent th
        then [connection_alert th f m t1] else [])
     @ (if CacheHitRatio m < MinCacheHitRatio th then [cache_alert th f m t2] else [])
     @ (if CPUUsage m > MaxCPUPercent th then [cpu_alert th f m t3] else [])
     @ (if MemoryUsage m > MaxMemoryPercent th then [memory_alert th f m t4] else [])
     @ (if ReplicationLag m > MaxReplicationLagMs th then [replication_alert th f m t5] else [])
     @ (if LockWaits m > 100 then [lock_alert th f m t6] else [])
     @ (if DeadlockCount m > 0 then [deadlock_alert th f m t7] else [])
     @ (if TableBloat m > MaxTableBloatPercent th then [bloat_alert th f m t8] else [])"
  unfolding AnalyzeMetrics_def check_fst
  apply (simp only: fst_conv snd_conv append_Nil append_assoc)
  apply (intro exI)
  apply (rule refl)
  done

lemmas alert_defs = connection_alert_def cache_alert_def cpu_alert_def memory_alert_def
  replication_alert_def lock_alert_def deadlock_alert_def bloat_alert_def

lemmas block_defs = check_connection_usage_def check_cache_hit_ratio_def check_cpu_usage_def
  check_memory_usage_def check_replication_lag_def check_lock_waits_def check_deadlocks_def
  check_table_bloat_def

lemmas example_defs = example_fmt_def example_clock_def example_metrics_def NewMetrics_def
  time_Now_def DefaultThresholds_def

lemma strip_alert:
  "(connection_alert th f m t)\<lparr>Timestamp_alert := t0\<rparr> = connection_alert th f m t0"
  "(cache_alert th f m t)\<lparr>Timestamp_alert := t0\<rparr> = cache_alert th f m t0"
  "(cpu_alert th f m t)\<lparr>Timestamp_alert := t0\<rparr> = cpu_alert th f m t0"
  "(memory_alert th f m t)\<lparr>Timestamp_alert := t0\<rparr> = memory_alert th f m t0"
  "(replication_alert th f m t)\<lparr>Timestamp_alert := t0\<rparr> = replication_alert th f m t0"
  "(lock_alert th f m t)\<lparr>Timestamp_alert := t0\<rparr> = lock_alert th f m t0"
  "(deadlock_alert th f m t)\<lparr>Timestamp_alert := t0\<rparr> = deadlock_alert th f m t0"
  "(bloat_alert th f m t)\<lparr>Timestamp_alert := t0\<rparr> = bloat_alert th f m t0"
  by (simp_all add: alert_defs)

lemma map_if_single: "map g (if c then [x] else []) = (if c then [g x] else [])"
  by simp

lemma AnalyzeMetrics_stripped:
  "map (\<lambda>a. a\<lparr>Timestamp_alert := t0\<rparr>) (fst (AnalyzeMetrics th f m clk)) =
       (if ConnectionsTotal m > 0 \<and> connPercent_of m > MaxConnectionsPercent th
        then [connection_alert th f m t0] else [])
     @ (if CacheHitRatio m < MinCacheHitRatio th then [cache_alert th f m t0] else [])
     @ (if CPUUsage m > MaxCPUPercent th then [cpu_alert th f m t0] else [])
     @ (if MemoryUsage m > MaxMemoryPercent th then [memory_alert th f m t0] else [])
     @ (if ReplicationLag m > MaxReplicationLagMs th then [replication_alert th f m t0] else [])
     @ (if LockWaits m > 100 then [lock_alert th f m t0] else [])
     @ (if DeadlockCount m > 0 then [deadlock_alert th f m t0] else [])
     @ (if TableBloat m > MaxTableBloatPercent th then [bloat_alert th f m t0] else [])"
  using AnalyzeMetrics_alerts [of th f m clk]
  by (elim exE) (simp only: map_append map_if_single strip_alert)

text \<open>The two snapshots used as concrete inputs: only the cache block fires.\<close>

lemma example_metrics_alerts:
  "AnalyzeMetrics DefaultThresholds example_fmt example_metrics clk =
     ([cache_alert DefaultThresholds example_fmt example_metrics (clk 0)], \<lambda>k. clk (Suc k))"
  by (simp add: AnalyzeMetrics_def block_defs example_defs NewAlert_def AddAction_def cache_alert_def)

lemma example_82_alerts:
  "AnalyzeMetrics DefaultThresholds example_fmt (example_metrics\<lparr>CacheHitRatio := 82\<rparr>) clk =
     ([cache_alert DefaultThresholds example_fmt (example_metrics\<lparr>CacheHitRatio := 82\<rparr>) (clk 0)], \<lambda>k. clk (Suc k))"
  by (simp add: AnalyzeMetrics_def block_defs example_defs NewAlert_def AddAction_def cache_alert_def)

section \<open>Severity of the cache-hit-ratio alert\<close>

text \<open>
  C1, as stated: a snapshot with \<open>CacheHitRatio = 82\<close> under the default thresholds gets a
  cache-hit-ratio alert of severity high. It does not: for the snapshot of cluster c1 with a
  cache hit ratio of 82 and every other metric zero, \<open>AnalyzeMetrics\<close> returns one alert,
  the cache-hit-ratio alert, and its severity is critical, since \<open>getSeverityBelow\<close>
  tests \<open>value <= critical\<close> first and 82 is at most 85.
\<close>

theorem cache_ratio_82_severity_not_high:
  "map Metric (fst (AnalyzeMetrics DefaultThresholds example_fmt
                      (example_metrics\<lparr>CacheHitRatio := 82\<rparr>) example_clock)) = [''cache_hit_ratio'']
   \<and> map Severity (fst (AnalyzeMetrics DefaultThresholds example_fmt
                      (example_metrics\<lparr>CacheHitRatio := 82\<rparr>) example_clock)) = [AlertSeverityCritical]
   \<and> AlertSeverityCritical \<noteq> AlertSeverityHigh"
  unfolding example_82_alerts
  by (simp add: cache_alert_def example_defs getSeverityBelow_def)

text \<open>
  C1, amended: for every snapshot with \<open>CacheHitRatio = 82\<close>, under the default minimum
  cache-hit-ratio threshold 95 with the lower tiers 90 and 85, \<open>AnalyzeMetrics\<close> emits exactly
  one cache-hit-ratio alert, and its severity is critical.
\<close>

theorem cache_ratio_82_severity_critical:
  assumes "CacheHitRatio m = 82"
  shows "\<exists>a. filter (\<lambda>a. Metric a = ''cache_hit_ratio'')
                (fst (AnalyzeMetrics DefaultThresholds f m clk)) = [a]
             \<and> Severity a = AlertSeverityCritical"
proof -
  have "\<exists>t. filter (\<lambda>a. Metric a = ''cache_hit_ratio'')
                (fst (AnalyzeMetrics DefaultThresholds f m clk))
              = [cache_alert DefaultThresholds f m t]"
    using AnalyzeMetrics_alerts [of DefaultThresholds f m clk] assms
    by (elim exE) (simp add: alert_defs DefaultThresholds_def)
  moreover have "Severity (cache_alert DefaultThresholds f m t) = AlertSeverityCritical" for t
    using assms by (simp add: cache_alert_def DefaultThresholds_def getSeverityBelow_def)
  ultimately show ?thesis by blast
qed

theorem cache_ratio_82_severity_critical_witness:
  "CacheHitRatio (example_metrics\<lparr>CacheHitRatio := 82\<rparr>) = 82
   \<and> (\<exists>a. filter (\<lambda>a. Metric a = ''cache_hit_ratio'')
              (fst (AnalyzeMetrics DefaultThresholds example_fmt
                      (example_metrics\<lparr>CacheHitRatio := 82\<rparr>) example_clock)) = [a]
           \<and> Severity a = AlertSeverityCritical)"
  using cache_ratio_82_severity_critical
          [of "example_metrics\<lparr>CacheHitRatio := 82\<rparr>" example_fmt example_clock]
  by simp

section \<open>Severity of the connection alert\<close>

text \<open>
  C3: for every snapshot with \<open>ConnectionsActive = 90\<close> and \<open>ConnectionsTotal = 100\<close>, under
  the default thresholds (connection tiers 80, 90, 95), \<open>AnalyzeMetrics\<close> emits exactly one
  alert of the connection category, and its severity is high.
\<close>

theorem connection_90_of_100_severity_high:
  assumes "ConnectionsActive m = 90" and "ConnectionsTotal m = 100"
  shows "\<exists>a. filter (\<lambda>a. Type_alert a = AlertTypeConnection)
                (fst (AnalyzeMetrics DefaultThresholds f m clk)) = [a]
             \<and> Severity a = AlertSeverityHigh"
proof -
  have pc: "connPercent_of m = 90"
    using assms by (simp add: connPercent_of_def float64_of_small_int float64_90_of_100)
  have "\<exists>t. filter (\<lambda>a. Type_alert a = AlertTypeConnection)
                (fst (AnalyzeMetrics DefaultThresholds f m clk))
              = [connection_alert DefaultThresholds f m t]"
    using AnalyzeMetrics_alerts [of DefaultThresholds f m clk] assms pc
    by (elim exE) (simp add: alert_defs DefaultThresholds_def)
  moreover have "Severity (connection_alert DefaultThresholds f m t) = AlertSeverityHigh" for t
    using pc by (simp add: connection_alert_def DefaultThresholds_def getSeverity_def)
  ultimately show ?thesis by blast
qed

theorem connection_90_of_100_severity_high_witness:
  "ConnectionsActive (example_metrics\<lparr>ConnectionsActive := 90, ConnectionsTotal := 100\<rparr>) = 90
   \<and> ConnectionsTotal (example_metrics\<lparr>ConnectionsActive := 90, ConnectionsTotal := 100\<rparr>) = 100
   \<and> (\<exists>a. filter (\<lambda>a. Type_alert a = AlertTypeConnection)
              (fst (AnalyzeMetrics DefaultThresholds example_fmt
                      (example_metrics\<lparr>ConnectionsActive := 90, ConnectionsTotal := 100\<rparr>)
                      example_clock)) = [a]
           \<and> Severity a = AlertSeverityHigh)"
  using connection_90_of_100_severity_high
          [of "example_metrics\<lparr>ConnectionsActive := 90, ConnectionsTotal := 100\<rparr>"
              example_fmt example_clock]
  by simp

section \<open>Repeated analysis of one snapshot\<close>

text \<open>
  C8, as stated: two invocations of \<open>AnalyzeMetrics\<close> on the same snapshot with the same
  thresholds return alert lists equal in every field value. They do not: \<open>NewAlert\<close> stamps
  each alert with \<open>time.Now()\<close>. On the all-zero snapshot of cluster c1, with the clock whose
  k-th reading is k, the second invocation (which continues with the clock the first one
  left) returns a list different from the first.
\<close>

theorem AnalyzeMetrics_repeated_differs:
  "fst (AnalyzeMetrics DefaultThresholds example_fmt example_metrics example_clock)
     \<noteq> fst (AnalyzeMetrics DefaultThresholds example_fmt example_metrics
              (snd (AnalyzeMetrics DefaultThresholds example_fmt example_metrics example_clock)))"
  unfolding example_metrics_alerts
  by (simp add: cache_alert_def example_clock_def)

text \<open>
  C8, amended: for every snapshot, \<open>AnalyzeMetrics\<close> invoked twice on that identical snapshot
  with identical thresholds, at any two clocks, returns two alert lists that are equal in
  length, in alert ordering, and in every field value of each alert other than its
  timestamp: once the timestamps are overwritten with one value the lists are equal.
\<close>

theorem AnalyzeMetrics_repeated_equal_up_to_timestamp:
  "length (fst (AnalyzeMetrics th f m clk)) = length (fst (AnalyzeMetrics th f m clk'))
   \<and> map (\<lambda>a. a\<lparr>Timestamp_alert := t0\<rparr>) (fst (AnalyzeMetrics th f m clk))
       = map (\<lambda>a. a\<lparr>Timestamp_alert := t0\<rparr>) (fst (AnalyzeMetrics th f m clk'))"
proof -
  note AnalyzeMetrics_stripped [of t0 th f m clk]
  also note AnalyzeMetrics_stripped [of t0 th f m clk', symmetric]
  finally have same:
    "map (\<lambda>a. a\<lparr>Timestamp_alert := t0\<rparr>) (fst (AnalyzeMetrics th f m clk))
       = map (\<lambda>a. a\<lparr>Timestamp_alert := t0\<rparr>) (fst (AnalyzeMetrics th f m clk'))" .
  then have "length (fst (AnalyzeMetrics th f m clk)) = length (fst (AnalyzeMetrics th f m clk'))"
    by (rule map_eq_imp_length_eq)
  with same show ?thesis by simp
qed

theorem AnalyzeMetrics_repeated_equal_up_to_timestamp_witness:
  "length (fst (AnalyzeMetrics DefaultThresholds example_fmt example_metrics example_clock))
     = length (fst (AnalyzeMetrics DefaultThresholds example_fmt example_metrics
                (snd (AnalyzeMetrics DefaultThresholds example_fmt example_metrics example_clock))))
   \<and> map (\<lambda>a. a\<lparr>Timestamp_alert := 0\<rparr>)
       (fst (AnalyzeMetrics DefaultThresholds example_fmt example_metrics example_clock))
     = map (\<lambda>a. a\<lparr>Timestamp_alert := 0\<rparr>)
         (fst (AnalyzeMetrics DefaultThresholds example_fmt example_metrics
                (snd (AnalyzeMetrics DefaultThresholds example_fmt example_metrics example_clock))))"
  by (rule AnalyzeMetrics_repeated_equal_up_to_timestamp)

section \<open>What \<open>calculateScore\<close> and \<open>GenerateHealthStatus\<close> return\<close>

lemma passedChecks_filter:
  "passedChecks cs = int (length (filter (\<lambda>c. Status_check c = ''ok'' \<or> Status_check c = ''healthy'') cs))"
  by (induction cs) simp_all

lemma passedChecks_append: "passedChecks (xs @ ys) = passedChecks xs + passedChecks ys"
  by (induction xs) simp_all

lemma passedChecks_bounds: "0 \<le> passedChecks cs \<and> passedChecks cs \<le> int (length cs)"
  by (induction cs) auto

lemma calculateScore_Checks: "Checks (calculateScore hs) = Checks hs"
  by (simp add: calculateScore_def Let_def)

lemma AddCheck_Checks: "Checks (AddCheck hs c) = Checks hs @ [c]"
  by (simp add: AddCheck_def calculateScore_Checks)

lemma AddCheck_Score:
  "Score (AddCheck hs c) = (passedChecks (Checks hs @ [c]) * 100) div int (length (Checks hs @ [c]))"
  by (simp add: AddCheck_def calculateScore_def Let_def)

lemma AddCheck_Status:
  "Status_health (AddCheck hs c) =
     (if Score (AddCheck hs c) \<ge> 90 then ''healthy''
      else if Score (AddCheck hs c) \<ge> 70 then ''warning''
      else if Score (AddCheck hs c) \<ge> 50 then ''degraded''
      else ''critical'')"
  by (simp add: AddCheck_def calculateScore_def Let_def)

lemma count_alerts_Checks: "Checks (fst (count_alerts alerts st)) = Checks (fst st)"
  by (induction alerts st rule: count_alerts.induct) simp_all

lemma AddCheck_Score_Checks:
  "Score (AddCheck hs c) =
     (passedChecks (Checks (AddCheck hs c)) * 100) div int (length (Checks (AddCheck hs c)))"
  by (simp add: AddCheck_def calculateScore_def Let_def)

lemma AddCheck_Status_nonempty: "Status_health (AddCheck hs c) \<noteq> ''unknown''"
  by (simp add: AddCheck_def calculateScore_def Let_def)

lemma GHS_is_AddCheck:
  "\<exists>hs c. fst (GenerateHealthStatus th f cid m alerts clk) = AddCheck hs c"
  unfolding GenerateHealthStatus_def Let_def split_def fst_conv by (intro exI) (rule refl)

lemma GHS_Score:
  "Score (fst (GenerateHealthStatus th f cid m alerts clk)) =
     (passedChecks (Checks (fst (GenerateHealthStatus th f cid m alerts clk))) * 100)
       div int (length (Checks (fst (GenerateHealthStatus th f cid m alerts clk))))"
  using GHS_is_AddCheck [of th f cid m alerts clk] AddCheck_Score_Checks by auto

lemma GHS_Checks:
  "\<exists>t1 t2 t3 t4 t5. Checks (fst (GenerateHealthStatus th f cid m alerts clk)) =
     [\<lparr> Name_check = ''Database Connectivity'', Status_check = ''ok'',
         Message_check = ''Database is reachable'', LastChecked = t1, Value_check = 0 \<rparr>]
     @ (if ConnectionsTotal m > 0 then
          [\<lparr> Name_check = ''Connection Pool'',
             Status_check = (if connPercent_of m > MaxConnectionsPercent th then ''warning'' else ''ok''),
             Message_check = sprintf_f1 f (connPercent_of m) @ ''% connections in use'',
             LastChecked = t2, Value_check = connPercent_of m \<rparr>]
        else [])
     @ [\<lparr> Name_check = ''Cache Performance'',
              Status_check = (if CacheHitRatio m < MinCacheHitRatio th then ''warning'' else ''ok''),
              Message_check = sprintf_f1 f (CacheHitRatio m) @ ''% cache hit ratio'',
              LastChecked = t3, Value_check = CacheHitRatio m \<rparr>,
        \<lparr> Name_check = ''CPU Usage'',
              Status_check = (if CPUUsage m > MaxCPUPercent th then ''warning'' else ''ok''),
              Message_check = sprintf_f1 f (CPUUsage m) @ ''% CPU usage'',
              LastChecked = t4, Value_check = CPUUsage m \<rparr>,
        \<lparr> Name_check = ''Memory Usage'',
              Status_check = (if MemoryUsage m > MaxMemoryPercent th then ''warning'' else ''ok''),
              Message_check = sprintf_f1 f (MemoryUsage m) @ ''% memory usage'',
              LastChecked = t5, Value_check = MemoryUsage m \<rparr>]"
proof (cases "ConnectionsTotal m > 0")
  case True
  then show ?thesis
    by (simp add: GenerateHealthStatus_def Let_def split_def AddCheck_Checks count_alerts_Checks
          NewHealthStatus_def connPercent_of_def)
next
  case False
  then show ?thesis
    by (simp add: GenerateHealthStatus_def Let_def split_def AddCheck_Checks count_alerts_Checks
          NewHealthStatus_def connPercent_of_def)
qed


lemma passedChecks_statuses:
  "passedChecks cs = int (length (filter (\<lambda>s. s = ''ok'' \<or> s = ''healthy'') (map Status_check cs)))"
  by (induction cs) simp_all

section \<open>Snapshots without a connection limit\<close>

lemma block_ignores_ConnectionsActive:
  "check_cache_hit_ratio th f (m\<lparr>ConnectionsActive := x\<rparr>) = check_cache_hit_ratio th f m"
  "check_cpu_usage th f (m\<lparr>ConnectionsActive := x\<rparr>) = check_cpu_usage th f m"
  "check_memory_usage th f (m\<lparr>ConnectionsActive := x\<rparr>) = check_memory_usage th f m"
  "check_replication_lag th f (m\<lparr>ConnectionsActive := x\<rparr>) = check_replication_lag th f m"
  "check_lock_waits th f (m\<lparr>ConnectionsActive := x\<rparr>) = check_lock_waits th f m"
  "check_deadlocks th f (m\<lparr>ConnectionsActive := x\<rparr>) = check_deadlocks th f m"
  "check_table_bloat th f (m\<lparr>ConnectionsActive := x\<rparr>) = check_table_bloat th f m"
  by (simp_all add: fun_eq_iff block_defs cong: if_cong)

lemma check_connection_usage_no_total:
  "ConnectionsTotal m \<le> 0 \<Longrightarrow> check_connection_usage th f m st = st"
  by (simp add: check_connection_usage_def split: prod.splits)

lemma GHS_ignores_ConnectionsActive:
  "ConnectionsTotal m \<le> 0 \<Longrightarrow>
   GenerateHealthStatus th f cid (m\<lparr>ConnectionsActive := x\<rparr>) alerts clk
     = GenerateHealthStatus th f cid m alerts clk"
  by (simp add: GenerateHealthStatus_def)

text \<open>
  C9: for every snapshot whose \<open>ConnectionsTotal\<close> is zero or negative, the connection
  utilization is not computed: \<open>AnalyzeMetrics\<close> emits no alert of the connection category
  and \<open>GenerateHealthStatus\<close> adds no Connection Pool check, whatever \<open>ConnectionsActive\<close> is
  (neither result changes when \<open>ConnectionsActive\<close> is replaced by any other value, so the
  quotient by \<open>ConnectionsTotal\<close> has no part in them).
\<close>

theorem no_connection_alert_without_total:
  assumes "ConnectionsTotal m \<le> 0"
  shows "filter (\<lambda>a. Type_alert a = AlertTypeConnection) (fst (AnalyzeMetrics th f m clk)) = []
    \<and> filter (\<lambda>check. Name_check check = ''Connection Pool'')
         (Checks (fst (GenerateHealthStatus th f clusterID m alerts clk))) = []
    \<and> AnalyzeMetrics th f (m\<lparr>ConnectionsActive := x\<rparr>) clk = AnalyzeMetrics th f m clk
    \<and> GenerateHealthStatus th f clusterID (m\<lparr>ConnectionsActive := x\<rparr>) alerts clk
         = GenerateHealthStatus th f clusterID m alerts clk"
proof -
  have a: "filter (\<lambda>a. Type_alert a = AlertTypeConnection) (fst (AnalyzeMetrics th f m clk)) = []"
    using AnalyzeMetrics_alerts [of th f m clk] assms
    by (elim exE) (simp add: alert_defs)
  have b: "filter (\<lambda>check. Name_check check = ''Connection Pool'')
         (Checks (fst (GenerateHealthStatus th f clusterID m alerts clk))) = []"
    using GHS_Checks [of th f clusterID m alerts clk] assms
    by (elim exE) simp
  have c: "AnalyzeMetrics th f (m\<lparr>ConnectionsActive := x\<rparr>) clk = AnalyzeMetrics th f m clk"
    using assms
    by (simp add: AnalyzeMetrics_def block_ignores_ConnectionsActive check_connection_usage_no_total)
  show ?thesis
    using a b c GHS_ignores_ConnectionsActive [OF assms] by simp
qed

theorem no_connection_alert_without_total_witness:
  "ConnectionsTotal (example_metrics\<lparr>ConnectionsActive := 50\<rparr>) \<le> 0
   \<and> filter (\<lambda>a. Type_alert a = AlertTypeConnection)
        (fst (AnalyzeMetrics DefaultThresholds example_fmt
                (example_metrics\<lparr>ConnectionsActive := 50\<rparr>) example_clock)) = []
   \<and> filter (\<lambda>check. Name_check check = ''Connection Pool'')
        (Checks (fst (GenerateHealthStatus DefaultThresholds example_fmt ''c1''
                        (example_metrics\<lparr>ConnectionsActive := 50\<rparr>) [] example_clock))) = []"
proof -
  have h: "ConnectionsTotal (example_metrics\<lparr>ConnectionsActive := 50\<rparr>) \<le> 0"
    by (simp add: example_metrics_def NewMetrics_def time_Now_def)
  from no_connection_alert_without_total [OF h, of DefaultThresholds example_fmt example_clock "''c1''" "[]"] h
  show ?thesis by blast
qed

section \<open>The connectivity check and the floor of the score\<close>

text \<open>
  C10: for every cluster id, snapshot and alert list, the status that \<open>GenerateHealthStatus\<close>
  returns contains the Database Connectivity check with status ok, so it has at least one
  passing check out of at most five, its score is at least 20, and its status is never
  unknown.
\<close>

theorem health_status_score_at_least_20:
  "(\<exists>check \<in> set (Checks (fst (GenerateHealthStatus th f clusterID m alerts clk))).
      Name_check check = ''Database Connectivity'' \<and> Status_check check = ''ok'')
   \<and> 1 \<le> passedChecks (Checks (fst (GenerateHealthStatus th f clusterID m alerts clk)))
   \<and> length (Checks (fst (GenerateHealthStatus th f clusterID m alerts clk))) \<le> 5
   \<and> 20 \<le> Score (fst (GenerateHealthStatus th f clusterID m alerts clk))
   \<and> Status_health (fst (GenerateHealthStatus th f clusterID m alerts clk)) \<noteq> ''unknown''"
proof -
  let ?h = "fst (GenerateHealthStatus th f clusterID m alerts clk)"
  obtain first rest where cs: "Checks ?h = first # rest"
    and first: "Name_check first = ''Database Connectivity''" "Status_check first = ''ok''"
    and len: "length rest \<le> 4"
    using GHS_Checks [of th f clusterID m alerts clk] by (elim exE) auto
  have p: "1 \<le> passedChecks (Checks ?h)"
    using cs first passedChecks_bounds [of rest] by simp
  have n: "0 < length (Checks ?h)" "length (Checks ?h) \<le> 5"
    using cs len by simp_all
  have "20 * int (length (Checks ?h)) \<le> passedChecks (Checks ?h) * 100"
    using p n by linarith
  then have "(20 * int (length (Checks ?h))) div int (length (Checks ?h))
               \<le> (passedChecks (Checks ?h) * 100) div int (length (Checks ?h))"
    using n by (intro zdiv_mono1) simp_all
  then have "20 \<le> (passedChecks (Checks ?h) * 100) div int (length (Checks ?h))"
    using n by simp
  then have s: "20 \<le> Score ?h"
    by (simp only: GHS_Score)
  have u: "Status_health ?h \<noteq> ''unknown''"
    using GHS_is_AddCheck [of th f clusterID m alerts clk] AddCheck_Status_nonempty by auto
  show ?thesis
    using cs first p n s u by auto
qed

theorem health_status_score_at_least_20_witness:
  "20 \<le> Score (fst (GenerateHealthStatus DefaultThresholds example_fmt ''c1''
                      (example_metrics\<lparr>ConnectionsTotal := 100, ConnectionsActive := 100,
                         CPUUsage := 100, MemoryUsage := 100\<rparr>) [] example_clock))
   \<and> Score (fst (GenerateHealthStatus DefaultThresholds example_fmt ''c1''
                      (example_metrics\<lparr>ConnectionsTotal := 100, ConnectionsActive := 100,
                         CPUUsage := 100, MemoryUsage := 100\<rparr>) [] example_clock)) = 20"
proof -
  let ?m = "example_metrics\<lparr>ConnectionsTotal := 100, ConnectionsActive := 100,
                         CPUUsage := 100, MemoryUsage := 100\<rparr>"
  let ?h = "fst (GenerateHealthStatus DefaultThresholds example_fmt ''c1'' ?m [] example_clock)"
  have "map Status_check (Checks ?h) = [''ok'', ''warning'', ''warning'', ''warning'', ''warning'']"
    using GHS_Checks [of DefaultThresholds example_fmt "''c1''" ?m "[]" example_clock]
    by (elim exE)
       (simp add: example_defs connPercent_of_def float64_of_small_int float64_100_of_100)
  then have "Score ?h = 20"
    by (simp add: GHS_Score [of DefaultThresholds example_fmt "''c1''" ?m "[]" example_clock]
          passedChecks_statuses [of "Checks ?h"] flip: length_map [of Status_check "Checks ?h"])
  with health_status_score_at_least_20 [of DefaultThresholds example_fmt "''c1''" ?m "[]" example_clock]
  show ?thesis by simp
qed

section \<open>The score of a list of checks\<close>

text \<open>
  A status built by \<open>NewHealthStatus\<close> and a run of \<open>AddCheck\<close> calls is the result of one
  \<open>calculateScore\<close> on the whole list of checks.
\<close>

lemma calculateScore_overwrites:
  "calculateScore ((calculateScore hs)\<lparr>Checks := cs\<rparr>) = calculateScore (hs\<lparr>Checks := cs\<rparr>)"
  by (simp add: calculateScore_def Let_def)

lemma foldl_AddCheck:
  "cs \<noteq> [] \<Longrightarrow> foldl AddCheck hs cs = calculateScore (hs\<lparr>Checks := Checks hs @ cs\<rparr>)"
proof (induction cs arbitrary: hs)
  case Nil
  then show ?case by simp
next
  case (Cons c cs)
  show ?case
  proof (cases "cs = []")
    case True
    then show ?thesis by (simp add: AddCheck_def)
  next
    case False
    then have "foldl AddCheck (AddCheck hs c) cs
                 = calculateScore ((AddCheck hs c)\<lparr>Checks := Checks (AddCheck hs c) @ cs\<rparr>)"
      by (rule Cons.IH)
    then show ?thesis
      by (simp add: AddCheck_Checks) (simp add: AddCheck_def calculateScore_overwrites)
  qed
qed

text \<open>
  C2, as stated: the score is 100 times the count of checks whose status is not warning,
  divided by the number of checks. It is not, for a check whose status is neither ok,
  healthy nor warning: \<open>calculateScore\<close> counts the checks whose status is ok or healthy.
  One check with status critical gives score 0 and status critical, where the count of
  checks not in warning gives 100.
\<close>

theorem score_is_not_count_of_non_warning:
  "Score (AddCheck (fst (NewHealthStatus ''c1'' example_clock)) (example_check ''critical'')) = 0
   \<and> Status_health (AddCheck (fst (NewHealthStatus ''c1'' example_clock)) (example_check ''critical''))
       = ''critical''
   \<and> score_as_specified [example_check ''critical''] = 100"
  by (simp add: AddCheck_def calculateScore_def NewHealthStatus_def time_Now_def example_check_def
        score_as_specified_def)

text \<open>
  C2, amended: for every health-check list, added check by check to a new health status, the
  score equals 100 times the count of checks whose status is ok or healthy, divided by the
  total check count and rounded down, with status healthy when the score is at least 90,
  warning when at least 70, degraded when at least 50, critical otherwise, and unknown with
  score 0 when the list is empty; in particular four checks with statuses ok, ok, warning,
  ok yield score 75 and status warning. When every status is ok, healthy or warning, this
  is the score of the specification's words.
\<close>

theorem health_score_counts_ok_or_healthy:
  "Checks (foldl AddCheck (fst (NewHealthStatus clusterID clk)) checks) = checks
   \<and> Score (foldl AddCheck (fst (NewHealthStatus clusterID clk)) checks) =
       (if checks = [] then 0
        else (100 * int (length (filter
                (\<lambda>check. Status_check check = ''ok'' \<or> Status_check check = ''healthy'') checks)))
               div int (length checks))
   \<and> Status_health (foldl AddCheck (fst (NewHealthStatus clusterID clk)) checks) =
       (if checks = [] then ''unknown''
        else if Score (foldl AddCheck (fst (NewHealthStatus clusterID clk)) checks) \<ge> 90
          then ''healthy''
        else if Score (foldl AddCheck (fst (NewHealthStatus clusterID clk)) checks) \<ge> 70
          then ''warning''
        else if Score (foldl AddCheck (fst (NewHealthStatus clusterID clk)) checks) \<ge> 50
          then ''degraded''
        else ''critical'')
   \<and> (map Status_check checks = [''ok'', ''ok'', ''warning'', ''ok''] \<longrightarrow>
        Score (foldl AddCheck (fst (NewHealthStatus clusterID clk)) checks) = 75
        \<and> Status_health (foldl AddCheck (fst (NewHealthStatus clusterID clk)) checks) = ''warning'')
   \<and> ((\<forall>check \<in> set checks. Status_check check = ''ok'' \<or> Status_check check = ''healthy''
                                 \<or> Status_check check = ''warning'') \<longrightarrow>
        Score (foldl AddCheck (fst (NewHealthStatus clusterID clk)) checks) = score_as_specified checks)"
proof (cases "checks = []")
  case True
  then show ?thesis
    by (simp add: NewHealthStatus_def time_Now_def score_as_specified_def)
next
  case False
  let ?h = "foldl AddCheck (fst (NewHealthStatus clusterID clk)) checks"
  have h: "?h = calculateScore ((fst (NewHealthStatus clusterID clk))\<lparr>Checks := checks\<rparr>)"
    using foldl_AddCheck [OF False, of "fst (NewHealthStatus clusterID clk)"]
    by (simp add: NewHealthStatus_def time_Now_def)
  have c: "Checks ?h = checks"
    by (simp add: h calculateScore_Checks)
  have s: "Score ?h = (100 * passedChecks checks) div int (length checks)"
    using False by (simp add: h calculateScore_def Let_def mult.commute)
  have st: "Status_health ?h =
       (if Score ?h \<ge> 90 then ''healthy'' else if Score ?h \<ge> 70 then ''warning''
        else if Score ?h \<ge> 50 then ''degraded'' else ''critical'')"
    using False by (simp add: h calculateScore_def Let_def)
  have ex: "Score ?h = 75 \<and> Status_health ?h = ''warning''"
    if "map Status_check checks = [''ok'', ''ok'', ''warning'', ''ok'']"
  proof -
    have "passedChecks checks = 3"
      using that by (simp add: passedChecks_statuses)
    moreover have "length checks = 4"
      using that length_map [of Status_check checks] by simp
    ultimately have "Score ?h = 75" by (simp add: s)
    then show ?thesis by (simp add: st)
  qed
  have sp: "Score ?h = score_as_specified checks"
    if "\<forall>check \<in> set checks. Status_check check = ''ok'' \<or> Status_check check = ''healthy''
                                 \<or> Status_check check = ''warning''"
  proof -
    have "filter (\<lambda>check. Status_check check = ''ok'' \<or> Status_check check = ''healthy'') checks
           = filter (\<lambda>check. Status_check check \<noteq> ''warning'') checks"
      using that by (intro filter_cong) auto
    then show ?thesis
      using False by (simp add: s passedChecks_filter score_as_specified_def)
  qed
  show ?thesis
    using False c s st ex sp by (simp add: passedChecks_filter)
qed

theorem health_score_counts_ok_or_healthy_witness:
  "Score (foldl AddCheck (fst (NewHealthStatus ''c1'' example_clock))
            [example_check ''ok'', example_check ''ok'', example_check ''warning'', example_check ''ok'']) = 75
   \<and> Status_health (foldl AddCheck (fst (NewHealthStatus ''c1'' example_clock))
            [example_check ''ok'', example_check ''ok'', example_check ''warning'', example_check ''ok''])
        = ''warning''
   \<and> score_as_specified
        [example_check ''ok'', example_check ''ok'', example_check ''warning'', example_check ''ok''] = 75"
proof -
  let ?cs = "[example_check ''ok'', example_check ''ok'', example_check ''warning'', example_check ''ok'']"
  have a: "map Status_check ?cs = [''ok'', ''ok'', ''warning'', ''ok'']"
    by (simp add: example_check_def)
  have b: "\<forall>check \<in> set ?cs. Status_check check = ''ok'' \<or> Status_check check = ''healthy''
                                 \<or> Status_check check = ''warning''"
    by (simp add: example_check_def)
  from health_score_counts_ok_or_healthy [of "''c1''" example_clock ?cs] a b
  show ?thesis by (simp del: foldl_Cons)
qed

section \<open>What every alert carries\<close>

lemma ball_if_single: "(\<forall>a \<in> set (if c then [x] else []). P a) = (c \<longrightarrow> P x)"
  by (cases c) simp_all

lemma AnalyzeQueryPerformance_alerts:
  "\<exists>t1 t2. fst (AnalyzeQueryPerformance th f qm clk) =
     (if ExecutionTime qm > MaxSlowQueryTimeMs th then
        [\<lparr> ID = '''',
           Type_alert = AlertTypeQuery,
           Severity =
             (if ExecutionTime qm > float64_mul (MaxSlowQueryTimeMs th) 10 then AlertSeverityCritical
              else if ExecutionTime qm > float64_mul (MaxSlowQueryTimeMs th) 5 then AlertSeverityHigh
              else AlertSeverityMedium),
           ClusterID_alert = ClusterID_query qm,
           Title = ''Slow Query Detected'',
           Description = ''Query took '' @ sprintf_f2 f (ExecutionTime qm) @ ''ms to execute'',
           Metric = ''execution_time'',
           Threshold = MaxSlowQueryTimeMs th,
           CurrentValue = ExecutionTime qm,
           Timestamp_alert = t1,
           Status_alert = ''active'',
           AcknowledgedAt = None,
           AcknowledgedBy = '''',
           ResolvedAt = None,
           Metadata = [''query_id'' \<mapsto> MString (QueryID qm),
                       ''database'' \<mapsto> MString (Database_query qm)],
           Actions = [''Analyze query with EXPLAIN ANALYZE'', ''Check for missing indexes'',
                      ''Consider query optimization''] \<rparr>]
      else [])
     @ (if TempBlocksRead qm > 10000 \<or> TempBlocksWritten qm > 10000 then
        [\<lparr> ID = '''',
           Type_alert = AlertTypePerformance,
           Severity = AlertSeverityMedium,
           ClusterID_alert = ClusterID_query qm,
           Title = ''High Temp Block Usage'',
           Description = ''Query using excessive temp blocks (read: ''
                          @ sprintf_d f (TempBlocksRead qm) @ '', written: ''
                          @ sprintf_d f (TempBlocksWritten qm) @ '')'',
           Metric = '''',
           Threshold = 0,
           CurrentValue = 0,
           Timestamp_alert = t2,
           Status_alert = ''active'',
           AcknowledgedAt = None,
           AcknowledgedBy = '''',
           ResolvedAt = None,
           Metadata = [''query_id'' \<mapsto> MString (QueryID qm),
                       ''temp_blocks_read'' \<mapsto> MInt (TempBlocksRead qm),
                       ''temp_blocks_written'' \<mapsto> MInt (TempBlocksWritten qm)],
           Actions = [''Consider increasing work_mem'', ''Optimize sort and hash operations''] \<rparr>]
      else [])"
proof (cases "ExecutionTime qm > MaxSlowQueryTimeMs th";
       cases "TempBlocksRead qm > 10000 \<or> TempBlocksWritten qm > 10000")
qed (simp_all add: AnalyzeQueryPerformance_def NewAlert_def time_Now_def AddAction_def Let_def)

text \<open>
  C7, as stated: every alert of \<open>AnalyzeMetrics\<close> or \<open>AnalyzeQueryPerformance\<close> carries a
  metric name, its threshold and the observed value. Not so the alert for temporary
  blocks: for a query that read 10001 temporary blocks, \<open>AnalyzeQueryPerformance\<close> returns
  one alert whose metric name is empty and whose threshold and current value are zero. Nor
  do the alerts for lock waits and deadlocks carry a threshold: for a snapshot with a cache
  hit ratio of 100 and 101 lock waits, \<open>AnalyzeMetrics\<close> returns the lock-wait alert alone,
  raised because 101 exceeds 100, with threshold 0; with one deadlock instead, the deadlock
  alert alone, with threshold 0, the zero value of a field that is never assigned.
\<close>

theorem alerts_without_metric_or_threshold:
  "map Metric (fst (AnalyzeQueryPerformance DefaultThresholds example_fmt
                      (example_query\<lparr>TempBlocksRead := 10001\<rparr>) example_clock)) = ['''']
   \<and> map Threshold (fst (AnalyzeQueryPerformance DefaultThresholds example_fmt
                      (example_query\<lparr>TempBlocksRead := 10001\<rparr>) example_clock)) = [0]
   \<and> map CurrentValue (fst (AnalyzeQueryPerformance DefaultThresholds example_fmt
                      (example_query\<lparr>TempBlocksRead := 10001\<rparr>) example_clock)) = [0]
   \<and> map Metric (fst (AnalyzeMetrics DefaultThresholds example_fmt
                      (example_metrics\<lparr>CacheHitRatio := 100, LockWaits := 101\<rparr>)
                      example_clock)) = [''lock_waits'']
   \<and> map Threshold (fst (AnalyzeMetrics DefaultThresholds example_fmt
                      (example_metrics\<lparr>CacheHitRatio := 100, LockWaits := 101\<rparr>)
                      example_clock)) = [0]
   \<and> map Metric (fst (AnalyzeMetrics DefaultThresholds example_fmt
                      (example_metrics\<lparr>CacheHitRatio := 100, DeadlockCount := 1\<rparr>)
                      example_clock)) = [''deadlock_count'']
   \<and> map Threshold (fst (AnalyzeMetrics DefaultThresholds example_fmt
                      (example_metrics\<lparr>CacheHitRatio := 100, DeadlockCount := 1\<rparr>)
                      example_clock)) = [0]"
proof -
  have q: "fst (AnalyzeQueryPerformance DefaultThresholds example_fmt
                  (example_query\<lparr>TempBlocksRead := 10001\<rparr>) example_clock)
            = [\<lparr> ID = '''', Type_alert = AlertTypePerformance, Severity = AlertSeverityMedium,
                  ClusterID_alert = ''c1'', Title = ''High Temp Block Usage'',
                  Description = ''Query using excessive temp blocks (read: ?, written: ?)'',
                  Metric = '''', Threshold = 0, CurrentValue = 0, Timestamp_alert = 0,
                  Status_alert = ''active'', AcknowledgedAt = None, AcknowledgedBy = '''',
                  ResolvedAt = None,
                  Metadata = [''query_id'' \<mapsto> MString ''q1'',
                              ''temp_blocks_read'' \<mapsto> MInt 10001,
                              ''temp_blocks_written'' \<mapsto> MInt 0],
                  Actions = [''Consider increasing work_mem'',
                             ''Optimize sort and hash operations''] \<rparr>]"
    by (simp add: AnalyzeQueryPerformance_def NewAlert_def time_Now_def AddAction_def
          DefaultThresholds_def example_query_def example_fmt_def example_clock_def)
  have l: "map Metric (fst (AnalyzeMetrics DefaultThresholds example_fmt
                      (example_metrics\<lparr>CacheHitRatio := 100, LockWaits := 101\<rparr>)
                      example_clock)) = [''lock_waits'']
           \<and> map Threshold (fst (AnalyzeMetrics DefaultThresholds example_fmt
                      (example_metrics\<lparr>CacheHitRatio := 100, LockWaits := 101\<rparr>)
                      example_clock)) = [0]"
    using AnalyzeMetrics_alerts [of DefaultThresholds example_fmt
            "example_metrics\<lparr>CacheHitRatio := 100, LockWaits := 101\<rparr>" example_clock]
    by (elim exE) (simp add: alert_defs example_defs)
  have d: "map Metric (fst (AnalyzeMetrics DefaultThresholds example_fmt
                      (example_metrics\<lparr>CacheHitRatio := 100, DeadlockCount := 1\<rparr>)
                      example_clock)) = [''deadlock_count'']
           \<and> map Threshold (fst (AnalyzeMetrics DefaultThresholds example_fmt
                      (example_metrics\<lparr>CacheHitRatio := 100, DeadlockCount := 1\<rparr>)
                      example_clock)) = [0]"
    using AnalyzeMetrics_alerts [of DefaultThresholds example_fmt
            "example_metrics\<lparr>CacheHitRatio := 100, DeadlockCount := 1\<rparr>" example_clock]
    by (elim exE) (simp add: alert_defs example_defs)
  show ?thesis
    using l d by (simp add: q)
qed

text \<open>
  C7, amended: every alert produced by \<open>AnalyzeMetrics\<close> or \<open>AnalyzeQueryPerformance\<close>
  carries a non-empty list of suggested remediation actions. Every alert of
  \<open>AnalyzeMetrics\<close> carries a metric name and the observed current value (the value the
  code computed in \<open>float64\<close>: the utilization percentage, or the converted counter), and
  the alerts for connection usage, cache hit ratio, CPU, memory, replication lag and table
  bloat carry their configured threshold (lock waits and deadlocks have none: their
  triggers are constants of the code). A slow-query alert carries the metric name
  execution_time, the configured slow-query threshold and the observed execution time. The
  alert for temporary blocks carries the observed block counts in its metadata.
\<close>

theorem alerts_carry_actions_and_metric_data:
  "(\<forall>a \<in> set (fst (AnalyzeMetrics th f m clk)).
      Actions a \<noteq> []
      \<and> (Metric a = ''connections_active'' \<and> Threshold a = MaxConnectionsPercent th
           \<and> CurrentValue a
               = float64_mul (float64_div (float64_of_int (ConnectionsActive m))
                              (float64_of_int (ConnectionsTotal m))) 100
         \<or> Metric a = ''cache_hit_ratio'' \<and> Threshold a = MinCacheHitRatio th
           \<and> CurrentValue a = CacheHitRatio m
         \<or> Metric a = ''cpu_usage'' \<and> Threshold a = MaxCPUPercent th
           \<and> CurrentValue a = CPUUsage m
         \<or> Metric a = ''memory_usage'' \<and> Threshold a = MaxMemoryPercent th
           \<and> CurrentValue a = MemoryUsage m
         \<or> Metric a = ''replication_lag'' \<and> Threshold a = float64_of_int (MaxReplicationLagMs th)
           \<and> CurrentValue a = float64_of_int (ReplicationLag m)
         \<or> Metric a = ''lock_waits'' \<and> CurrentValue a = float64_of_int (LockWaits m)
         \<or> Metric a = ''deadlock_count'' \<and> CurrentValue a = float64_of_int (DeadlockCount m)
         \<or> Metric a = ''table_bloat'' \<and> Threshold a = MaxTableBloatPercent th
           \<and> CurrentValue a = TableBloat m))
   \<and> (\<forall>a \<in> set (fst (AnalyzeQueryPerformance th f qm clk)).
      Actions a \<noteq> []
      \<and> (Metric a = ''execution_time'' \<and> Threshold a = MaxSlowQueryTimeMs th
           \<and> CurrentValue a = ExecutionTime qm
         \<or> Title a = ''High Temp Block Usage''
           \<and> Metadata a ''temp_blocks_read'' = Some (MInt (TempBlocksRead qm))
           \<and> Metadata a ''temp_blocks_written'' = Some (MInt (TempBlocksWritten qm))))"
  apply (rule conjI)
  subgoal
    using AnalyzeMetrics_alerts [of th f m clk]
    apply (elim exE)
    apply (simp only: set_append ball_Un ball_if_single)
    apply (simp add: alert_defs connPercent_of_def)
    done
  subgoal
    using AnalyzeQueryPerformance_alerts [of th f qm clk]
    apply (elim exE)
    apply (simp only: set_append ball_Un ball_if_single)
    apply simp
    done
  done

theorem alerts_carry_actions_and_metric_data_witness:
  "map Metric (fst (AnalyzeMetrics DefaultThresholds example_fmt
                      (example_metrics\<lparr>LockWaits := 101\<rparr>) example_clock))
     = [''cache_hit_ratio'', ''lock_waits'']
   \<and> list_all (\<lambda>a. Actions a \<noteq> [])
         (fst (AnalyzeMetrics DefaultThresholds example_fmt
                 (example_metrics\<lparr>LockWaits := 101\<rparr>) example_clock))
   \<and> map Metric (fst (AnalyzeQueryPerformance DefaultThresholds example_fmt
                        (example_query\<lparr>TempBlocksRead := 10001\<rparr>) example_clock)) = ['''']
   \<and> list_all (\<lambda>a. Actions a \<noteq> [])
         (fst (AnalyzeQueryPerformance DefaultThresholds example_fmt
                 (example_query\<lparr>TempBlocksRead := 10001\<rparr>) example_clock))
   \<and> map CurrentValue
         (fst (AnalyzeMetrics DefaultThresholds example_fmt
                 (example_metrics\<lparr>ConnectionsActive := 29, ConnectionsTotal := 30,
                    CacheHitRatio := 100\<rparr>) example_clock))
       = [6802311937174187 / 70368744177664]"
proof -
  have a: "map Metric (fst (AnalyzeMetrics DefaultThresholds example_fmt
                      (example_metrics\<lparr>LockWaits := 101\<rparr>) example_clock))
            = [''cache_hit_ratio'', ''lock_waits'']"
    using AnalyzeMetrics_alerts [of DefaultThresholds example_fmt
            "example_metrics\<lparr>LockWaits := 101\<rparr>" example_clock]
    by (elim exE) (simp add: alert_defs example_defs)
  have b: "map Metric (fst (AnalyzeQueryPerformance DefaultThresholds example_fmt
                        (example_query\<lparr>TempBlocksRead := 10001\<rparr>) example_clock)) = ['''']"
    by (simp add: AnalyzeQueryPerformance_def NewAlert_def time_Now_def AddAction_def
          DefaultThresholds_def example_query_def)
  have c: "map CurrentValue
         (fst (AnalyzeMetrics DefaultThresholds example_fmt
                 (example_metrics\<lparr>ConnectionsActive := 29, ConnectionsTotal := 30,
                    CacheHitRatio := 100\<rparr>) example_clock))
       = [6802311937174187 / 70368744177664]"
    using AnalyzeMetrics_alerts [of DefaultThresholds example_fmt
            "example_metrics\<lparr>ConnectionsActive := 29, ConnectionsTotal := 30,
                    CacheHitRatio := 100\<rparr>" example_clock]
    by (elim exE)
       (simp add: connPercent_of_def float64_of_small_int float64_29_of_30
          connection_alert_def example_defs)
  from alerts_carry_actions_and_metric_data
         [of DefaultThresholds example_fmt "example_metrics\<lparr>LockWaits := 101\<rparr>" example_clock
             "example_query\<lparr>TempBlocksRead := 10001\<rparr>"]
  have "list_all (\<lambda>a. Actions a \<noteq> [])
         (fst (AnalyzeMetrics DefaultThresholds example_fmt
                 (example_metrics\<lparr>LockWaits := 101\<rparr>) example_clock))
        \<and> list_all (\<lambda>a. Actions a \<noteq> [])
         (fst (AnalyzeQueryPerformance DefaultThresholds example_fmt
                 (example_query\<lparr>TempBlocksRead := 10001\<rparr>) example_clock))"
    unfolding list_all_iff by blast
  with a b c show ?thesis by blast
qed

section \<open>Failed registrations\<close>

text \<open>
  C4: for every registry state and every config whose connectivity probe fails (the call
  reaches the probe: the id is not registered, the connection string parses, the pool is
  built, and \<open>Ping\<close> on that pool returns an error), \<open>AddCluster\<close> returns the error of the
  probe, a ConnectionError, closes the pool it has built (the handle it took is among the
  closed ones afterwards) and leaves the registry unchanged: after the call the id is absent
  from the ids that \<open>GetAllClusters\<close> lists and \<open>GetPool\<close> on it fails with NotFound.
\<close>

theorem AddCluster_probe_failure:
  assumes "pools cp clusterID = None"
    and "ParseConfig lib (connString_of f config) = None"
    and "NewWithConfig lib (configure_pool (connString_of f config) config) = None"
    and "Ping lib \<lparr> handle = next_handle w,
                    pool_config = configure_pool (connString_of f config) config \<rparr> = Some err"
  shows "AddCluster lib f clusterID config (cp, w)
           = (Some (Errorf_ping err), cp,
              w\<lparr>next_handle := Suc (next_handle w),
                closed_pools := insert (next_handle w) (closed_pools w)\<rparr>)
         \<and> kind_of (Errorf_ping err) = ConnectionError
         \<and> clusterID \<notin> GetAllClusters cp
         \<and> GetPool cp clusterID = Inl (Errorf_no_pool clusterID)
         \<and> kind_of (Errorf_no_pool clusterID) = NotFound"
  using assms
  by (simp add: AddCluster_def Let_def GetAllClusters_def GetPool_def domIff)

theorem AddCluster_probe_failure_witness:
  "AddCluster unreachable_pgx example_fmt ''c2'' example_config (example_registry, example_world)
     = (Some (Errorf_ping ''connection refused''), example_registry,
        example_world\<lparr>next_handle := 1, closed_pools := {0}\<rparr>)
   \<and> ''c2'' \<notin> GetAllClusters example_registry
   \<and> GetPool example_registry ''c2'' = Inl (Errorf_no_pool ''c2'')"
proof -
  have a: "pools example_registry ''c2'' = None"
    by (simp add: example_registry_def)
  have b: "ParseConfig unreachable_pgx (connString_of example_fmt example_config) = None"
    by (simp add: unreachable_pgx_def example_pgx_def)
  have c: "NewWithConfig unreachable_pgx
             (configure_pool (connString_of example_fmt example_config) example_config) = None"
    by (simp add: unreachable_pgx_def example_pgx_def)
  have d: "Ping unreachable_pgx \<lparr> handle = next_handle example_world,
              pool_config = configure_pool (connString_of example_fmt example_config) example_config \<rparr>
             = Some ''connection refused''"
    by (simp add: unreachable_pgx_def example_pgx_def)
  from AddCluster_probe_failure [OF a b c d] show ?thesis
    by (simp add: example_world_def)
qed

text \<open>
  C5: for every registry state in which the id is already registered, \<open>AddCluster\<close> with
  that id fails with AlreadyExists before any pool is built (whatever the library would
  answer, no handle is taken and nothing is closed or logged: the world is unchanged), and
  the registry is unchanged: \<open>GetPool\<close> still returns the pool registered before.
\<close>

theorem AddCluster_duplicate_id:
  assumes "pools cp clusterID = Some pool"
  shows "AddCluster lib f clusterID config (cp, w) = (Some (Errorf_already_exists clusterID), cp, w)
         \<and> kind_of (Errorf_already_exists clusterID) = AlreadyExists
         \<and> GetPool cp clusterID = Inr pool"
  using assms by (simp add: AddCluster_def GetPool_def)

theorem AddCluster_duplicate_id_witness:
  "pools example_registry ''c1'' = Some example_pool
   \<and> AddCluster example_pgx example_fmt ''c1'' example_config (example_registry, example_world)
       = (Some (Errorf_already_exists ''c1''), example_registry, example_world)
   \<and> GetPool example_registry ''c1'' = Inr example_pool"
proof -
  have a: "pools example_registry ''c1'' = Some example_pool"
    by (simp add: example_registry_def)
  from AddCluster_duplicate_id [OF a, of example_pgx example_fmt example_config example_world] a
  show ?thesis by simp
qed

section \<open>Failure isolation in \<open>CollectClusterMetrics\<close>\<close>

text \<open>Each sub-collection changes its own fields only, and only when its query succeeds.\<close>

lemma collectConnectionMetrics_snd:
  "snd (collectConnectionMetrics lib p m) =
     m\<lparr>ConnectionsActive :=
         (case QueryRow_connections lib p of Inl e \<Rightarrow> ConnectionsActive m | Inr r \<Rightarrow> fst r),
       ConnectionsTotal :=
         (case QueryRow_connections lib p of Inl e \<Rightarrow> ConnectionsTotal m | Inr r \<Rightarrow> snd r)\<rparr>"
  by (simp add: collectConnectionMetrics_def split: sum.splits prod.splits)

lemma collectCacheMetrics_snd:
  "snd (collectCacheMetrics lib p m) =
     m\<lparr>CacheHitRatio := (case QueryRow_cache lib p of Inl e \<Rightarrow> CacheHitRatio m | Inr r \<Rightarrow> r)\<rparr>"
  by (simp add: collectCacheMetrics_def split: sum.splits)

lemma collectTransactionMetrics_snd:
  "snd (collectTransactionMetrics lib p m) =
     m\<lparr>TransactionsPerSec :=
         (case QueryRow_transactions lib p of Inl e \<Rightarrow> TransactionsPerSec m
          | Inr n \<Rightarrow> float64_div (float64_of_int n) 60)\<rparr>"
  by (simp add: collectTransactionMetrics_def split: sum.splits)

lemma collectLockMetrics_snd:
  "snd (collectLockMetrics lib p m) =
     m\<lparr>LockWaits := (case QueryRow_lock_waits lib p of Inl e \<Rightarrow> LockWaits m | Inr n \<Rightarrow> n),
       DeadlockCount :=
         (case QueryRow_lock_waits lib p of
            Inl e \<Rightarrow> DeadlockCount m
          | Inr n \<Rightarrow> (case QueryRow_deadlocks lib p of Inl e \<Rightarrow> DeadlockCount m | Inr d \<Rightarrow> d))\<rparr>"
  by (simp add: collectLockMetrics_def split: sum.splits)

lemma collectReplicationMetrics_snd:
  "snd (collectReplicationMetrics lib p m) =
     m\<lparr>ReplicationLag :=
         (case QueryRow_replication lib p of Inl e \<Rightarrow> ReplicationLag m | Inr n \<Rightarrow> n)\<rparr>"
  by (simp add: collectReplicationMetrics_def split: sum.splits)

lemma collectBloatMetrics_snd:
  "snd (collectBloatMetrics lib p m) =
     m\<lparr>TableBloat := (case QueryRow_bloat lib p of Inl e \<Rightarrow> TableBloat m | Inr r \<Rightarrow> r)\<rparr>"
  by (simp add: collectBloatMetrics_def split: sum.splits)

lemma collectDiskIOMetrics_snd:
  "snd (collectDiskIOMetrics lib p m) =
     m\<lparr>DiskIORead :=
         (case QueryRow_disk_io lib p of Inl e \<Rightarrow> DiskIORead m | Inr r \<Rightarrow> float64_mul (float64_of_int (fst r)) 8),
       DiskIOWrite :=
         (case QueryRow_disk_io lib p of Inl e \<Rightarrow> DiskIOWrite m | Inr r \<Rightarrow> float64_mul (float64_of_int (snd r)) 8)\<rparr>"
  by (simp add: collectDiskIOMetrics_def split: sum.splits prod.splits)

lemmas collect_snd = collectConnectionMetrics_snd collectCacheMetrics_snd
  collectTransactionMetrics_snd collectLockMetrics_snd collectReplicationMetrics_snd
  collectBloatMetrics_snd collectDiskIOMetrics_snd

lemma CollectClusterMetrics_result:
  assumes "pools cp clusterID = Some pool"
  shows "fst (CollectClusterMetrics lib cp clusterID w) =
     Inr (snd (collectDiskIOMetrics lib pool (
         snd (collectBloatMetrics lib pool (
         snd (collectReplicationMetrics lib pool (
         snd (collectLockMetrics lib pool (
         snd (collectTransactionMetrics lib pool (
         snd (collectCacheMetrics lib pool (
         snd (collectConnectionMetrics lib pool 
         (fst (NewMetrics clusterID (now_clock w)))))))))))))))))"
  using assms by (simp add: CollectClusterMetrics_def GetPool_def Let_def split_def)

text \<open>
  C6: for a registered cluster, \<open>CollectClusterMetrics\<close> returns a snapshot, whichever of
  the queries fail, and each of the seven sub-collections is isolated: the fields of a
  sub-collection hold the values the code computes from its query's answer when the query
  succeeded (the answer itself, the \<open>float64\<close> quotient of the transaction count by 60, the
  \<open>float64\<close> product of a block count and 8) and zero, the default of \<open>NewMetrics\<close>, when it
  failed, independently of the other sub-collections. (The deadlock count belongs to the
  lock sub-collection: it is read by a second query, after the lock-wait query has
  succeeded.)
\<close>

theorem CollectClusterMetrics_isolates_failures:
  assumes "pools cp clusterID = Some pool"
  shows "\<exists>m w'.
     CollectClusterMetrics lib cp clusterID w = (Inr m, w')
     \<and> ConnectionsActive m
         = (case QueryRow_connections lib pool of Inl e \<Rightarrow> 0 | Inr r \<Rightarrow> fst r)
     \<and> ConnectionsTotal m
         = (case QueryRow_connections lib pool of Inl e \<Rightarrow> 0 | Inr r \<Rightarrow> snd r)
     \<and> CacheHitRatio m = (case QueryRow_cache lib pool of Inl e \<Rightarrow> 0 | Inr r \<Rightarrow> r)
     \<and> TransactionsPerSec m
         = (case QueryRow_transactions lib pool of Inl e \<Rightarrow> 0 | Inr n \<Rightarrow> float64_div (float64_of_int n) 60)
     \<and> LockWaits m = (case QueryRow_lock_waits lib pool of Inl e \<Rightarrow> 0 | Inr n \<Rightarrow> n)
     \<and> DeadlockCount m
         = (case QueryRow_lock_waits lib pool of
              Inl e \<Rightarrow> 0
            | Inr n \<Rightarrow> (case QueryRow_deadlocks lib pool of Inl e \<Rightarrow> 0 | Inr d \<Rightarrow> d))
     \<and> ReplicationLag m = (case QueryRow_replication lib pool of Inl e \<Rightarrow> 0 | Inr n \<Rightarrow> n)
     \<and> TableBloat m = (case QueryRow_bloat lib pool of Inl e \<Rightarrow> 0 | Inr r \<Rightarrow> r)
     \<and> DiskIORead m
         = (case QueryRow_disk_io lib pool of Inl e \<Rightarrow> 0 | Inr r \<Rightarrow> float64_mul (float64_of_int (fst r)) 8)
     \<and> DiskIOWrite m
         = (case QueryRow_disk_io lib pool of Inl e \<Rightarrow> 0 | Inr r \<Rightarrow> float64_mul (float64_of_int (snd r)) 8)"
proof -
  let ?m = "snd (collectDiskIOMetrics lib pool (
         snd (collectBloatMetrics lib pool (
         snd (collectReplicationMetrics lib pool (
         snd (collectLockMetrics lib pool (
         snd (collectTransactionMetrics lib pool (
         snd (collectCacheMetrics lib pool (
         snd (collectConnectionMetrics lib pool 
         (fst (NewMetrics clusterID (now_clock w))))))))))))))))"
  have r: "CollectClusterMetrics lib cp clusterID w
             = (Inr ?m, snd (CollectClusterMetrics lib cp clusterID w))"
    using CollectClusterMetrics_result [OF assms, of lib w]
    by (metis prod.collapse)
  have f: "ConnectionsActive ?m
         = (case QueryRow_connections lib pool of Inl e \<Rightarrow> 0 | Inr r \<Rightarrow> fst r)"
     "ConnectionsTotal ?m
         = (case QueryRow_connections lib pool of Inl e \<Rightarrow> 0 | Inr r \<Rightarrow> snd r)"
     "CacheHitRatio ?m = (case QueryRow_cache lib pool of Inl e \<Rightarrow> 0 | Inr r \<Rightarrow> r)"
     "TransactionsPerSec ?m
         = (case QueryRow_transactions lib pool of Inl e \<Rightarrow> 0 | Inr n \<Rightarrow> float64_div (float64_of_int n) 60)"
     "LockWaits ?m = (case QueryRow_lock_waits lib pool of Inl e \<Rightarrow> 0 | Inr n \<Rightarrow> n)"
     "DeadlockCount ?m
         = (case QueryRow_lock_waits lib pool of
              Inl e \<Rightarrow> 0
            | Inr n \<Rightarrow> (case QueryRow_deadlocks lib pool of Inl e \<Rightarrow> 0 | Inr d \<Rightarrow> d))"
     "ReplicationLag ?m = (case QueryRow_replication lib pool of Inl e \<Rightarrow> 0 | Inr n \<Rightarrow> n)"
     "TableBloat ?m = (case QueryRow_bloat lib pool of Inl e \<Rightarrow> 0 | Inr r \<Rightarrow> r)"
     "DiskIORead ?m
         = (case QueryRow_disk_io lib pool of Inl e \<Rightarrow> 0 | Inr r \<Rightarrow> float64_mul (float64_of_int (fst r)) 8)"
     "DiskIOWrite ?m
         = (case QueryRow_disk_io lib pool of Inl e \<Rightarrow> 0 | Inr r \<Rightarrow> float64_mul (float64_of_int (snd r)) 8)"
    by (simp_all add: collect_snd NewMetrics_def time_Now_def cong: sum.case_cong)
  show ?thesis
    using r f by blast
qed

theorem CollectClusterMetrics_isolates_failures_witness:
  "pools example_registry ''c1'' = Some example_pool
   \<and> QueryRow_cache cache_failing_pgx example_pool = Inl ''query failed''
   \<and> (\<exists>m w'. CollectClusterMetrics cache_failing_pgx example_registry ''c1'' example_world = (Inr m, w')
         \<and> CacheHitRatio m = 0 \<and> ConnectionsActive m = 90 \<and> ConnectionsTotal m = 100
         \<and> TransactionsPerSec m = 7505999378950827 / 4503599627370496
         \<and> LockWaits m = 2 \<and> DeadlockCount m = 1
         \<and> TableBloat m = 5 \<and> DiskIORead m = 80 \<and> DiskIOWrite m = 160)"
proof -
  have a: "pools example_registry ''c1'' = Some example_pool"
    by (simp add: example_registry_def)
  have q: "QueryRow_connections cache_failing_pgx example_pool = Inr (90, 100)"
    "QueryRow_cache cache_failing_pgx example_pool = Inl ''query failed''"
    "QueryRow_transactions cache_failing_pgx example_pool = Inr 100"
    "QueryRow_lock_waits cache_failing_pgx example_pool = Inr 2"
    "QueryRow_deadlocks cache_failing_pgx example_pool = Inr 1"
    "QueryRow_replication cache_failing_pgx example_pool = Inr 0"
    "QueryRow_bloat cache_failing_pgx example_pool = Inr 5"
    "QueryRow_disk_io cache_failing_pgx example_pool = Inr (10, 20)"
    by (simp_all add: cache_failing_pgx_def example_pgx_def)
  from CollectClusterMetrics_isolates_failures [OF a, of cache_failing_pgx example_world] a
  show ?thesis
    by (auto simp: q float64_of_small_int float64_100_per_60 float64_blocks)
qed

end
